theory Spec2Isabelle
  imports Complex_Main
begin

section \<open>Numbers\<close>

text \<open>
  A JavaScript number is modelled as a real number or one of the three special values
  of IEEE 754 arithmetic. The operations of this section return the exact result on
  finite numbers; division by zero, the products and differences of infinities and the
  propagation of NaN are the ones of the language, so that no quotient of the source is
  silently replaced by an arbitrary value. Rounding is added in the next section. The
  sign of zero is not modelled: zero counts as positive zero.
\<close>

datatype number = Fin real | PInf | NInf | NaN

fun finite_num :: "number \<Rightarrow> bool" where
  "finite_num (Fin r) = True"
| "finite_num PInf = False"
| "finite_num NInf = False"
| "finite_num NaN = False"

fun nneg :: "number \<Rightarrow> number" where
  "nneg (Fin a) = Fin (- a)"
| "nneg PInf = NInf"
| "nneg NInf = PInf"
| "nneg NaN = NaN"

fun nadd :: "number \<Rightarrow> number \<Rightarrow> number" where
  "nadd NaN b = NaN"
| "nadd a NaN = NaN"
| "nadd (Fin a) (Fin b) = Fin (a + b)"
| "nadd PInf NInf = NaN"
| "nadd NInf PInf = NaN"
| "nadd PInf b = PInf"
| "nadd NInf b = NInf"
| "nadd (Fin a) PInf = PInf"
| "nadd (Fin a) NInf = NInf"

definition nsub :: "number \<Rightarrow> number \<Rightarrow> number" where
  "nsub a b = nadd a (nneg b)"

text \<open>The sign of an infinite product or quotient: positive when the flag is true.\<close>

definition inf_of :: "bool \<Rightarrow> number" where
  "inf_of pos = (if pos then PInf else NInf)"

fun nmul :: "number \<Rightarrow> number \<Rightarrow> number" where
  "nmul NaN b = NaN"
| "nmul a NaN = NaN"
| "nmul (Fin a) (Fin b) = Fin (a * b)"
| "nmul PInf PInf = PInf"
| "nmul PInf NInf = NInf"
| "nmul NInf PInf = NInf"
| "nmul NInf NInf = PInf"
| "nmul PInf (Fin b) = (if b = 0 then NaN else inf_of (0 < b))"
| "nmul NInf (Fin b) = (if b = 0 then NaN else inf_of (b < 0))"
| "nmul (Fin a) PInf = (if a = 0 then NaN else inf_of (0 < a))"
| "nmul (Fin a) NInf = (if a = 0 then NaN else inf_of (a < 0))"

fun ndiv :: "number \<Rightarrow> number \<Rightarrow> number" where
  "ndiv NaN b = NaN"
| "ndiv a NaN = NaN"
| "ndiv (Fin a) (Fin b) =
     (if b = 0 then (if a = 0 then NaN else inf_of (0 < a)) else Fin (a / b))"
| "ndiv (Fin a) PInf = Fin 0"
| "ndiv (Fin a) NInf = Fin 0"
| "ndiv PInf (Fin b) = inf_of (0 \<le> b)"
| "ndiv NInf (Fin b) = inf_of (b < 0)"
| "ndiv PInf b = NaN"
| "ndiv NInf b = NaN"

fun nlt :: "number \<Rightarrow> number \<Rightarrow> bool" where
  "nlt NaN b = False"
| "nlt a NaN = False"
| "nlt (Fin a) (Fin b) = (a < b)"
| "nlt NInf NInf = False"
| "nlt NInf b = True"
| "nlt PInf b = False"
| "nlt (Fin a) PInf = True"
| "nlt (Fin a) NInf = False"

text \<open>
  \<open>Math.sin\<close> and \<open>Math.cos\<close> are NaN outside the finite numbers. \<open>Math.tan\<close> is
  the quotient of the two, so that a pole of the real tangent is an infinity and not
  the value that division by zero has in HOL.
\<close>

fun Math_sin :: "number \<Rightarrow> number" where
  "Math_sin (Fin a) = Fin (sin a)"
| "Math_sin PInf = NaN"
| "Math_sin NInf = NaN"
| "Math_sin NaN = NaN"

fun Math_cos :: "number \<Rightarrow> number" where
  "Math_cos (Fin a) = Fin (cos a)"
| "Math_cos PInf = NaN"
| "Math_cos NInf = NaN"
| "Math_cos NaN = NaN"

definition Math_tan :: "number \<Rightarrow> number" where
  "Math_tan a = ndiv (Math_sin a) (Math_cos a)"

text \<open>
  \<open>Math.hypot\<close> of three arguments: an infinite argument wins over NaN, NaN wins over
  the finite numbers.
\<close>

fun Math_hypot :: "number \<Rightarrow> number \<Rightarrow> number \<Rightarrow> number" where
  "Math_hypot (Fin x) (Fin y) (Fin z) = Fin (sqrt (x * x + y * y + z * z))"
| "Math_hypot x y z =
     (if x = PInf \<or> x = NInf \<or> y = PInf \<or> y = NInf \<or> z = PInf \<or> z = NInf then PInf
      else NaN)"

section \<open>Rounding\<close>

text \<open>
  Rounding to the nearest integer, a tie going to the even one.
\<close>

definition round_even :: "real \<Rightarrow> int" where
  "round_even y =
    (let n = \<lfloor>y\<rfloor>; d = y - of_int n
     in if d < 1 / 2 then n else if 1 / 2 < d then n + 1 else if even n then n else n + 1)"

text \<open>
  Rounding to a binary format with \<open>p\<close> bits of precision whose values are integer
  multiples of \<open>2^emin\<close> and lie below \<open>2^emax\<close> in magnitude: the real number is
  rounded to the nearest multiple of the unit of its binade (of \<open>2^emin\<close> in the
  subnormal range), ties to even, and a result that reaches \<open>2^emax\<close> is an infinity.
\<close>

definition round_to :: "nat \<Rightarrow> int \<Rightarrow> int \<Rightarrow> real \<Rightarrow> number" where
  "round_to p emin emax x =
    (if x = 0 then Fin 0
     else let e = max emin (\<lfloor>log 2 \<bar>x\<bar>\<rfloor> - int p + 1);
              r = of_int (round_even (x / 2 powr of_int e)) * 2 powr of_int e
          in if 2 powr of_int emax \<le> \<bar>r\<bar> then inf_of (0 < x) else Fin r)"

text \<open>
  The two formats of the source: a JavaScript number is a binary64 value, and an
  element of a \<open>Float32Array\<close> is a binary32 value.
\<close>

fun binary64 :: "number \<Rightarrow> number" where
  "binary64 (Fin x) = round_to 53 (- 1074) 1024 x"
| "binary64 PInf = PInf"
| "binary64 NInf = NInf"
| "binary64 NaN = NaN"

fun float32 :: "number \<Rightarrow> number" where
  "float32 (Fin x) = round_to 24 (- 149) 128 x"
| "float32 PInf = PInf"
| "float32 NInf = NInf"
| "float32 NaN = NaN"

text \<open>
  An arithmetic says how the result of an operation is rounded and how a number is
  converted when it is stored into a \<open>Float32Array\<close>. The functions of the matrix
  library take the arithmetic as a parameter. Under \<open>ieee\<close> they are the code as it
  runs: every operation rounds to binary64 and every store rounds to binary32 (the
  functions of \<open>Math\<close> are taken to be correctly rounded). Under \<open>exact\<close> nothing is
  rounded: this is the reading over the real numbers in which the specification states
  its algebraic properties.
\<close>

record arith =
  rnd :: "number \<Rightarrow> number"
  store :: "number \<Rightarrow> number"

definition exact :: arith where
  "exact = \<lparr>rnd = (\<lambda>x. x), store = (\<lambda>x. x)\<rparr>"

definition ieee :: arith where
  "ieee = \<lparr>rnd = binary64, store = float32\<rparr>"

definition fadd :: "arith \<Rightarrow> number \<Rightarrow> number \<Rightarrow> number" where
  "fadd A a b = rnd A (nadd a b)"

definition fsub :: "arith \<Rightarrow> number \<Rightarrow> number \<Rightarrow> number" where
  "fsub A a b = rnd A (nsub a b)"

definition fmul :: "arith \<Rightarrow> number \<Rightarrow> number \<Rightarrow> number" where
  "fmul A a b = rnd A (nmul a b)"

definition fdiv :: "arith \<Rightarrow> number \<Rightarrow> number \<Rightarrow> number" where
  "fdiv A a b = rnd A (ndiv a b)"

definition fsin :: "arith \<Rightarrow> number \<Rightarrow> number" where
  "fsin A a = rnd A (Math_sin a)"

definition fcos :: "arith \<Rightarrow> number \<Rightarrow> number" where
  "fcos A a = rnd A (Math_cos a)"

definition ftan :: "arith \<Rightarrow> number \<Rightarrow> number" where
  "ftan A a = rnd A (Math_tan a)"

definition fhypot :: "arith \<Rightarrow> number \<Rightarrow> number \<Rightarrow> number \<Rightarrow> number" where
  "fhypot A x y z = rnd A (Math_hypot x y z)"

section \<open>The matrix library (src/lib/mat4.ts)\<close>

text \<open>
  A \<open>Float32Array\<close> is a list of numbers; its constructor and an assignment to one
  of its elements convert the number stored. Reading it past its end yields
  \<open>undefined\<close>, which arithmetic and the conversion both turn into NaN.
\<close>

type_synonym mat4 = "number list"
type_synonym Vec3 = "number \<times> number \<times> number"

definition Float32Array :: "arith \<Rightarrow> number list \<Rightarrow> mat4" where
  "Float32Array A xs = map (store A) xs"

definition elt :: "mat4 \<Rightarrow> nat \<Rightarrow> number" where
  "elt a i = (if i < length a then a ! i else NaN)"

definition create :: "arith \<Rightarrow> mat4" where
  "create A =
    Float32Array A
      [Fin 1, Fin 0, Fin 0, Fin 0,
       Fin 0, Fin 1, Fin 0, Fin 0,
       Fin 0, Fin 0, Fin 1, Fin 0,
       Fin 0, Fin 0, Fin 0, Fin 1]"

text \<open>
  The parameter \<open>far\<close> is a number or \<open>null\<close>; \<open>None\<close> stands for \<open>null\<close> and for
  an argument left out. The test \<open>far != null && far !== Infinity\<close> sends \<open>null\<close> and
  positive infinity to the second branch and every other number, negative infinity
  and NaN included, to the first.
\<close>

definition perspective :: "arith \<Rightarrow> number \<Rightarrow> number \<Rightarrow> number \<Rightarrow> number option \<Rightarrow> mat4" where
  "perspective A fovy aspect near far =
    (let f = fdiv A (Fin 1) (ftan A (fdiv A fovy (Fin 2)));
         m = Float32Array A
             [fdiv A f aspect, Fin 0, Fin 0, Fin 0,
              Fin 0, f, Fin 0, Fin 0,
              Fin 0, Fin 0, Fin 0, Fin (- 1),
              Fin 0, Fin 0, Fin 0, Fin 0]
     in case far of
          None \<Rightarrow> (m[10 := store A (Fin (- 1))])[14 := store A (fmul A (Fin (- 2)) near)]
        | Some PInf \<Rightarrow> (m[10 := store A (Fin (- 1))])[14 := store A (fmul A (Fin (- 2)) near)]
        | Some fr \<Rightarrow>
            (let nf = fdiv A (Fin 1) (fsub A near fr)
             in (m[10 := store A (fmul A (fadd A fr near) nf)])
                   [14 := store A (fmul A (fmul A (fmul A (Fin 2) fr) near) nf)]))"

text \<open>
  The function \<open>rotate\<close> of the source; the suffix keeps it apart from the rotation of
  lists.
\<close>

definition rotate_mat4 :: "arith \<Rightarrow> mat4 \<Rightarrow> number \<Rightarrow> Vec3 \<Rightarrow> mat4" where
  "rotate_mat4 A a rad axis =
    (case axis of (x0, y0, z0) \<Rightarrow>
      let len = fdiv A (Fin 1) (fhypot A x0 y0 z0);
          x = fmul A x0 len;
          y = fmul A y0 len;
          z = fmul A z0 len;
          s = fsin A rad;
          c = fcos A rad;
          t = fsub A (Fin 1) c;
          a00 = elt a 0; a01 = elt a 1; a02 = elt a 2; a03 = elt a 3;
          a10 = elt a 4; a11 = elt a 5; a12 = elt a 6; a13 = elt a 7;
          a20 = elt a 8; a21 = elt a 9; a22 = elt a 10; a23 = elt a 11;
          b00 = fadd A (fmul A (fmul A x x) t) c;
          b01 = fadd A (fmul A (fmul A y x) t) (fmul A z s);
          b02 = fsub A (fmul A (fmul A z x) t) (fmul A y s);
          b10 = fsub A (fmul A (fmul A x y) t) (fmul A z s);
          b11 = fadd A (fmul A (fmul A y y) t) c;
          b12 = fadd A (fmul A (fmul A z y) t) (fmul A x s);
          b20 = fadd A (fmul A (fmul A x z) t) (fmul A y s);
          b21 = fsub A (fmul A (fmul A y z) t) (fmul A x s);
          b22 = fadd A (fmul A (fmul A z z) t) c
      in Float32Array A
         [fadd A (fadd A (fmul A a00 b00) (fmul A a10 b01)) (fmul A a20 b02),
          fadd A (fadd A (fmul A a01 b00) (fmul A a11 b01)) (fmul A a21 b02),
          fadd A (fadd A (fmul A a02 b00) (fmul A a12 b01)) (fmul A a22 b02),
          fadd A (fadd A (fmul A a03 b00) (fmul A a13 b01)) (fmul A a23 b02),
          fadd A (fadd A (fmul A a00 b10) (fmul A a10 b11)) (fmul A a20 b12),
          fadd A (fadd A (fmul A a01 b10) (fmul A a11 b11)) (fmul A a21 b12),
          fadd A (fadd A (fmul A a02 b10) (fmul A a12 b11)) (fmul A a22 b12),
          fadd A (fadd A (fmul A a03 b10) (fmul A a13 b11)) (fmul A a23 b12),
          fadd A (fadd A (fmul A a00 b20) (fmul A a10 b21)) (fmul A a20 b22),
          fadd A (fadd A (fmul A a01 b20) (fmul A a11 b21)) (fmul A a21 b22),
          fadd A (fadd A (fmul A a02 b20) (fmul A a12 b21)) (fmul A a22 b22),
          fadd A (fadd A (fmul A a03 b20) (fmul A a13 b21)) (fmul A a23 b22),
          elt a 12, elt a 13, elt a 14, elt a 15])"

definition translate :: "arith \<Rightarrow> mat4 \<Rightarrow> Vec3 \<Rightarrow> mat4" where
  "translate A a v =
    (case v of (x, y, z) \<Rightarrow>
      let a00 = elt a 0; a01 = elt a 1; a02 = elt a 2; a03 = elt a 3;
          a10 = elt a 4; a11 = elt a 5; a12 = elt a 6; a13 = elt a 7;
          a20 = elt a 8; a21 = elt a 9; a22 = elt a 10; a23 = elt a 11
      in Float32Array A
         [a00, a01, a02, a03,
          a10, a11, a12, a13,
          a20, a21, a22, a23,
          fadd A (fadd A (fadd A (fmul A a00 x) (fmul A a10 y)) (fmul A a20 z)) (elt a 12),
          fadd A (fadd A (fadd A (fmul A a01 x) (fmul A a11 y)) (fmul A a21 z)) (elt a 13),
          fadd A (fadd A (fadd A (fmul A a02 x) (fmul A a12 y)) (fmul A a22 z)) (elt a 14),
          fadd A (fadd A (fadd A (fmul A a03 x) (fmul A a13 y)) (fmul A a23 z)) (elt a 15)])"

section \<open>The wireframe cubes (src/cubes.ts)\<close>

text \<open>
  This file stores nothing into a typed array. It is embedded over the exact operations
  of the first section, the reading over the real numbers.

  The globals the class reads: \<open>FIELD_OF_VIEW\<close> and the client size of the canvas.
\<close>

record canvas_env =
  FIELD_OF_VIEW :: number
  clientWidth :: number
  clientHeight :: number

record Cube =
  cube_x :: number
  cube_y :: number
  cube_z :: number
  radius :: number

text \<open>
  The fields \<open>lines\<close> and \<open>vertices\<close> have the same initial value in every instance
  and are never assigned, so they are constants here.
\<close>

definition lines :: "(nat \<times> nat) list" where
  "lines = [(0, 1), (1, 3), (3, 2), (2, 0), (2, 6), (3, 7),
            (0, 4), (1, 5), (6, 7), (6, 4), (7, 5), (4, 5)]"

definition vertices :: "(number \<times> number \<times> number) list" where
  "vertices =
    [(Fin (- 1), Fin (- 1), Fin (- 1)),
     (Fin 1, Fin (- 1), Fin (- 1)),
     (Fin (- 1), Fin 1, Fin (- 1)),
     (Fin 1, Fin 1, Fin (- 1)),
     (Fin (- 1), Fin (- 1), Fin 1),
     (Fin 1, Fin (- 1), Fin 1),
     (Fin (- 1), Fin 1, Fin 1),
     (Fin 1, Fin 1, Fin 1)]"

record projection =
  proj_size :: number
  proj_x :: number
  proj_y :: number

definition project :: "canvas_env \<Rightarrow> number \<Rightarrow> number \<Rightarrow> number \<Rightarrow> projection" where
  "project env x y z =
    (let sizeProjection = ndiv (FIELD_OF_VIEW env) (nadd (FIELD_OF_VIEW env) z);
         xProject = nadd (nmul x sizeProjection) (ndiv (clientWidth env) (Fin 2));
         yProject = nadd (nmul y sizeProjection) (ndiv (clientHeight env) (Fin 2))
     in \<lparr>proj_size = sizeProjection, proj_x = xProject, proj_y = yProject\<rparr>)"

text \<open>
  The drawing context is the list of the calls made on it, oldest first.
\<close>

datatype ctx_call = BeginPath | MoveTo number number | LineTo number number | Stroke

definition draw_line :: "canvas_env \<Rightarrow> Cube \<Rightarrow> ctx_call list \<Rightarrow> nat \<times> nat \<Rightarrow> ctx_call list" where
  "draw_line env c ctx l =
    (case l of (lineX, lineY) \<Rightarrow>
      (case (vertices ! lineX, vertices ! lineY) of ((vx1, vy1, vz1), (vx2, vy2, vz2)) \<Rightarrow>
        let v1Project = project env (nadd (cube_x c) (nmul (radius c) vx1))
                                    (nadd (cube_y c) (nmul (radius c) vy1))
                                    (nadd (cube_z c) (nmul (radius c) vz1));
            v2Project = project env (nadd (cube_x c) (nmul (radius c) vx2))
                                    (nadd (cube_y c) (nmul (radius c) vy2))
                                    (nadd (cube_z c) (nmul (radius c) vz2))
        in ctx @ [BeginPath,
                  MoveTo (proj_x v1Project) (proj_y v1Project),
                  LineTo (proj_x v2Project) (proj_y v2Project),
                  Stroke]))"

definition draw :: "canvas_env \<Rightarrow> Cube \<Rightarrow> ctx_call list \<Rightarrow> ctx_call list" where
  "draw env c ctx =
    (if nlt (cube_z c) (nadd (nneg (FIELD_OF_VIEW env)) (radius c)) then ctx
     else foldl (draw_line env c) ctx lines)"

section \<open>What the drawing backend does with a matrix\<close>

text \<open>
  The vertex shader multiplies a column-major matrix by a homogeneous point, and the
  rasteriser divides by the fourth component. Neither is code of the library; both are
  written here as the specification describes them, to state what the matrices mean.
\<close>

type_synonym vec4 = "number \<times> number \<times> number \<times> number"

definition row_dot :: "mat4 \<Rightarrow> nat \<Rightarrow> vec4 \<Rightarrow> number" where
  "row_dot m r p =
    (case p of (x, y, z, w) \<Rightarrow>
      nadd (nadd (nadd (nmul (elt m r) x) (nmul (elt m (4 + r)) y)) (nmul (elt m (8 + r)) z))
           (nmul (elt m (12 + r)) w))"

definition transform :: "mat4 \<Rightarrow> vec4 \<Rightarrow> vec4" where
  "transform m p = (row_dot m 0 p, row_dot m 1 p, row_dot m 2 p, row_dot m 3 p)"

definition ndc_depth :: "mat4 \<Rightarrow> vec4 \<Rightarrow> number" where
  "ndc_depth m p = (case transform m p of (x, y, z, w) \<Rightarrow> ndiv z w)"

section \<open>What a drawn cube should look like\<close>

text \<open>
  The specification's description of one edge, used to state what \<open>draw\<close> emits: a
  corner of the cube in world coordinates is the position of the entity plus its
  radius times the local vertex, its screen point is the \<open>x\<close> and \<open>y\<close> of its
  projection, and an edge is one stroked path from the screen point of its first end
  to that of its second.
\<close>

definition world_vertex :: "Cube \<Rightarrow> nat \<Rightarrow> number \<times> number \<times> number" where
  "world_vertex c i =
    (case vertices ! i of (vx, vy, vz) \<Rightarrow>
      (nadd (cube_x c) (nmul (radius c) vx),
       nadd (cube_y c) (nmul (radius c) vy),
       nadd (cube_z c) (nmul (radius c) vz)))"

definition screen_point :: "canvas_env \<Rightarrow> Cube \<Rightarrow> nat \<Rightarrow> number \<times> number" where
  "screen_point env c i =
    (case world_vertex c i of (wx, wy, wz) \<Rightarrow>
      (proj_x (project env wx wy wz), proj_y (project env wx wy wz)))"

definition edge_calls :: "canvas_env \<Rightarrow> Cube \<Rightarrow> nat \<times> nat \<Rightarrow> ctx_call list" where
  "edge_calls env c e =
    [BeginPath,
     MoveTo (fst (screen_point env c (fst e))) (snd (screen_point env c (fst e))),
     LineTo (fst (screen_point env c (snd e))) (snd (screen_point env c (snd e))),
     Stroke]"

section \<open>Rodrigues' rotation formula\<close>

text \<open>
  The rotation by the angle \<open>\<theta>\<close> about a unit axis \<open>n\<close>, as the specification names it
  and written independently of the code: \<open>cos \<theta> I + sin \<theta> K + (1 - cos \<theta>) n n\<^sup>T\<close>,
  where \<open>K\<close> is the cross-product matrix of \<open>n\<close>. Entries are addressed by row and
  column, both counted from 0. The axis is normalised by dividing it by its Euclidean
  length.
\<close>

type_synonym rvec3 = "real \<times> real \<times> real"

definition normalized :: "rvec3 \<Rightarrow> rvec3" where
  "normalized v =
    (case v of (x, y, z) \<Rightarrow>
      (x / sqrt (x * x + y * y + z * z),
       y / sqrt (x * x + y * y + z * z),
       z / sqrt (x * x + y * y + z * z)))"

definition component :: "rvec3 \<Rightarrow> nat \<Rightarrow> real" where
  "component v i = (case v of (x, y, z) \<Rightarrow> if i = 0 then x else if i = 1 then y else z)"

definition cross_matrix :: "rvec3 \<Rightarrow> nat \<Rightarrow> nat \<Rightarrow> real" where
  "cross_matrix n i j =
    (case n of (x, y, z) \<Rightarrow>
      [[0, - z, y],
       [z, 0, - x],
       [- y, x, 0]] ! i ! j)"

definition rodrigues :: "real \<Rightarrow> rvec3 \<Rightarrow> nat \<Rightarrow> nat \<Rightarrow> real" where
  "rodrigues \<theta> n i j =
     cos \<theta> * (if i = j then 1 else 0) + sin \<theta> * cross_matrix n i j
       + (1 - cos \<theta>) * (component n i * component n j)"

section \<open>Degenerate matrices\<close>

text \<open>
  The specification calls a matrix degenerate when it is not invertible or not finite.
  The product of two column-major matrices of real numbers is written out entry by
  entry; a matrix is invertible when it has an inverse on both sides.
\<close>

definition cell :: "real list \<Rightarrow> real list \<Rightarrow> nat \<Rightarrow> nat \<Rightarrow> real" where
  "cell a b i j =
     a ! i * b ! (4 * j) + a ! (4 + i) * b ! (4 * j + 1)
       + a ! (8 + i) * b ! (4 * j + 2) + a ! (12 + i) * b ! (4 * j + 3)"

definition mat_mul :: "real list \<Rightarrow> real list \<Rightarrow> real list" where
  "mat_mul a b =
    [cell a b 0 0, cell a b 1 0, cell a b 2 0, cell a b 3 0,
     cell a b 0 1, cell a b 1 1, cell a b 2 1, cell a b 3 1,
     cell a b 0 2, cell a b 1 2, cell a b 2 2, cell a b 3 2,
     cell a b 0 3, cell a b 1 3, cell a b 2 3, cell a b 3 3]"

definition identity4 :: "real list" where
  "identity4 = [1, 0, 0, 0, 0, 1, 0, 0, 0, 0, 1, 0, 0, 0, 0, 1]"

definition invertible4 :: "real list \<Rightarrow> bool" where
  "invertible4 a \<longleftrightarrow>
     (\<exists>b. length b = 16 \<and> mat_mul a b = identity4 \<and> mat_mul b a = identity4)"

fun real_of :: "number \<Rightarrow> real" where
  "real_of (Fin r) = r"
| "real_of PInf = 0"
| "real_of NInf = 0"
| "real_of NaN = 0"

definition degenerate :: "mat4 \<Rightarrow> bool" where
  "degenerate m \<longleftrightarrow> \<not> (list_all finite_num m \<and> invertible4 (map real_of m))"

section \<open>Facts about rounding\<close>

lemma round_even_of_int: "round_even (of_int n) = n"
  by (simp add: round_even_def)

lemma round_even_ge: "of_int lo \<le> y \<Longrightarrow> lo \<le> round_even y"
proof -
  assume "of_int lo \<le> y"
  then have "lo \<le> \<lfloor>y\<rfloor>" by (simp add: le_floor_iff)
  then show ?thesis by (simp add: round_even_def Let_def)
qed

lemma round_even_le: "y \<le> of_int hi \<Longrightarrow> round_even y \<le> hi"
proof (cases "y = of_int hi")
  case True
  then show ?thesis by (simp add: round_even_of_int)
next
  case False
  assume "y \<le> of_int hi"
  with False have "y < of_int hi" by simp
  then have "\<lfloor>y\<rfloor> < hi" by (simp add: floor_less_iff)
  then show ?thesis by (auto simp add: round_even_def Let_def)
qed

text \<open>A value \<open>m * 2^e\<close> of the format is its own rounding.\<close>

lemma round_to_exact:
  assumes x: "x = of_int m * 2 powr of_int e"
    and m: "\<bar>m\<bar> < 2 ^ p" and e: "emin \<le> e" and b: "\<bar>x\<bar> < 2 powr of_int emax"
  shows "round_to p emin emax x = Fin x"
proof (cases "x = 0")
  case True
  then show ?thesis by (simp add: round_to_def)
next
  case False
  then have m0: "m \<noteq> 0" using x by auto
  define L where "L = \<lfloor>log 2 \<bar>x\<bar>\<rfloor>"
  define E where "E = max emin (L - int p + 1)"
  have ax: "\<bar>x\<bar> = of_int \<bar>m\<bar> * 2 powr of_int e" using x by (simp add: abs_mult)
  have "of_int \<bar>m\<bar> < (2::real) ^ p" using m by (metis of_int_less_numeral_power_cancel_iff)
  then have "\<bar>x\<bar> < 2 ^ p * 2 powr of_int e" unfolding ax by simp
  also have "\<dots> = 2 powr (of_int (int p + e))" by (simp add: powr_add powr_realpow)
  finally have "\<bar>x\<bar> < 2 powr (of_int (int p + e))" .
  then have "log 2 \<bar>x\<bar> < of_int (int p + e)"
    using False by (simp add: log_less_iff)
  then have "L < int p + e" unfolding L_def by (simp add: floor_less_iff)
  then have Ee: "E \<le> e" using e by (simp add: E_def)
  then obtain d :: nat where d: "e = E + int d" by (metis zle_iff_zadd)
  have "x / 2 powr of_int E = of_int m * (2 powr of_int e / 2 powr of_int E)" using x by simp
  also have "2 powr of_int e / 2 powr of_int E = (2::real) powr (of_int (int d))"
    unfolding d by (simp add: powr_add)
  also have "\<dots> = 2 ^ d" by (simp add: powr_realpow)
  finally have q: "x / 2 powr of_int E = of_int (m * 2 ^ d)" by simp
  have r: "of_int (round_even (x / 2 powr of_int E)) * 2 powr of_int E = x"
    unfolding q round_even_of_int using q by (simp add: field_simps)
  show ?thesis
    using False b unfolding round_to_def L_def[symmetric] E_def[symmetric] Let_def r
    by simp
qed


text \<open>
  In the normal range the rounding stays in the binade of its argument, keeps the sign
  and fixes the powers of two.
\<close>

lemma round_to_normal:
  fixes x :: real and L :: int
  assumes x0: "x \<noteq> 0" and L: "L = \<lfloor>log 2 \<bar>x\<bar>\<rfloor>"
    and n: "emin \<le> L - int p + 1" and p: "1 \<le> p"
  defines "r \<equiv> of_int (round_even (x / 2 powr of_int (L - int p + 1))) * 2 powr of_int (L - int p + 1)"
  shows "round_to p emin emax x = (if 2 powr of_int emax \<le> \<bar>r\<bar> then inf_of (0 < x) else Fin r)"
    and "2 powr of_int L \<le> \<bar>r\<bar>" and "\<bar>r\<bar> \<le> 2 powr of_int (L + 1)"
    and "0 < x \<Longrightarrow> 0 < r" and "x < 0 \<Longrightarrow> r < 0"
    and "\<bar>x\<bar> = 2 powr of_int L \<Longrightarrow> r = x"
proof -
  define E where "E = L - int p + 1"
  define y where "y = x / 2 powr of_int E"
  define n where "n = round_even y"
  have r: "r = of_int n * 2 powr of_int E" by (simp add: r_def n_def y_def E_def)
  have Emax: "max emin (L - int p + 1) = E" using n by (simp add: E_def)
  show "round_to p emin emax x = (if 2 powr of_int emax \<le> \<bar>r\<bar> then inf_of (0 < x) else Fin r)"
    using x0 unfolding round_to_def L[symmetric] Emax Let_def r n_def y_def by simp
  have bnd: "2 powr of_int L \<le> \<bar>x\<bar>" "\<bar>x\<bar> < 2 powr of_int (L + 1)"
    using floor_log_eq_powr_iff[of "\<bar>x\<bar>" 2 L] x0 L by simp_all
  obtain q :: nat where q: "p = Suc q" using p by (cases p) simp_all
  have LE: "L = E + int q" by (simp add: E_def q)
  have pL: "(2::real) powr of_int L = 2 ^ q * 2 powr of_int E"
    unfolding LE by (simp add: powr_add powr_realpow)
  have pL1: "(2::real) powr of_int (L + 1) = 2 ^ p * 2 powr of_int E"
    unfolding LE q by (simp add: powr_add powr_realpow)
  have Epos: "0 < (2::real) powr of_int E" by simp
  have ay: "\<bar>y\<bar> = \<bar>x\<bar> / 2 powr of_int E" by (simp add: y_def)
  have ylo: "2 ^ q \<le> \<bar>y\<bar>"
    using bnd(1) Epos unfolding ay pL by (simp add: pos_le_divide_eq)
  have yhi: "\<bar>y\<bar> < 2 ^ p"
    using bnd(2) Epos unfolding ay pL1 by (simp add: pos_divide_less_eq)
  have ar: "\<bar>r\<bar> = of_int \<bar>n\<bar> * 2 powr of_int E" by (simp add: r abs_mult)
  have nb: "2 ^ q \<le> \<bar>n\<bar> \<and> \<bar>n\<bar> \<le> 2 ^ p \<and> (0 < x \<longrightarrow> 0 < n) \<and> (x < 0 \<longrightarrow> n < 0)"
  proof (cases "0 < x")
    case True
    then have y0: "0 < y" by (simp add: y_def)
    then have "of_int (2 ^ q) \<le> y" "y \<le> of_int (2 ^ p)" using ylo yhi by simp_all
    then have "2 ^ q \<le> n" "n \<le> 2 ^ p"
      unfolding n_def using round_even_ge[of "2 ^ q" y] round_even_le[of y "2 ^ p"] by blast+
    moreover have "(0::int) < 2 ^ q" by simp
    ultimately have "0 < n" "2 ^ q \<le> \<bar>n\<bar>" "\<bar>n\<bar> \<le> 2 ^ p" by linarith+
    then show ?thesis using True by simp
  next
    case False
    then have xn: "x < 0" using x0 by simp
    then have y0: "y < 0" by (simp add: y_def divide_neg_pos)
    then have "of_int (- (2 ^ p)) \<le> y" "y \<le> of_int (- (2 ^ q))" using ylo yhi by simp_all
    then have "- (2 ^ p) \<le> n" "n \<le> - (2 ^ q)"
      unfolding n_def using round_even_ge[of "- (2 ^ p)" y] round_even_le[of y "- (2 ^ q)"] by blast+
    moreover have "(0::int) < 2 ^ q" by simp
    ultimately have "n < 0" "2 ^ q \<le> \<bar>n\<bar>" "\<bar>n\<bar> \<le> 2 ^ p" by linarith+
    then show ?thesis using xn by simp
  qed
  have "(2::real) ^ q \<le> of_int \<bar>n\<bar>" using nb by (metis of_int_le_iff of_int_numeral of_int_power)
  then show "2 powr of_int L \<le> \<bar>r\<bar>" unfolding ar pL using Epos by simp
  have "of_int \<bar>n\<bar> \<le> (2::real) ^ p" using nb by (metis of_int_le_iff of_int_numeral of_int_power)
  then show "\<bar>r\<bar> \<le> 2 powr of_int (L + 1)" unfolding ar pL1 using Epos by simp
  show "0 < r" if "0 < x" using that nb Epos unfolding r by simp
  show "r < 0" if "x < 0" using that nb Epos unfolding r by (simp add: mult_neg_pos)
  show "r = x" if "\<bar>x\<bar> = 2 powr of_int L"
  proof -
    have "\<bar>y\<bar> = 2 ^ q" using that Epos unfolding ay pL by simp
    then have "y = of_int (2 ^ q) \<or> y = of_int (- (2 ^ q))" by (auto simp add: abs_if split: if_splits)
    then have "of_int n = y" unfolding n_def by (auto simp add: round_even_of_int simp del: of_int_power of_int_minus)
    then show ?thesis unfolding r y_def by simp
  qed
qed

lemma round_to_range:
  fixes x :: real
  assumes lo: "2 powr of_int lo \<le> \<bar>x\<bar>" and hi: "\<bar>x\<bar> \<le> 2 powr of_int hi"
    and n: "emin \<le> lo - int p + 1" and m: "hi < emax" and p: "1 \<le> p"
  shows "\<exists>r. round_to p emin emax x = Fin r \<and> 2 powr of_int lo \<le> \<bar>r\<bar> \<and> \<bar>r\<bar> \<le> 2 powr of_int hi
           \<and> (0 < x \<longleftrightarrow> 0 < r)"
proof -
  define L where "L = \<lfloor>log 2 \<bar>x\<bar>\<rfloor>"
  have x0: "x \<noteq> 0" using lo by (auto simp add: not_le)
  have bnd: "2 powr of_int L \<le> \<bar>x\<bar>" "\<bar>x\<bar> < 2 powr of_int (L + 1)"
    using floor_log_eq_powr_iff[of "\<bar>x\<bar>" 2 L] x0 L_def by simp_all
  have "(2::real) powr of_int lo < 2 powr of_int (L + 1)" by (rule le_less_trans[OF lo bnd(2)])
  then have loL: "lo \<le> L" by simp
  have "(2::real) powr of_int L \<le> 2 powr of_int hi" by (rule order_trans[OF bnd(1) hi])
  then have Lhi: "L \<le> hi" by simp
  have n': "emin \<le> L - int p + 1" using n loL by simp
  define r :: real where "r = of_int (round_even (x / 2 powr of_int (L - int p + 1))) * 2 powr of_int (L - int p + 1)"
  note N = round_to_normal[OF x0 L_def n' p, folded r_def]
  have rhi: "\<bar>r\<bar> \<le> 2 powr of_int hi"
  proof (cases "L = hi")
    case True
    then have "\<bar>x\<bar> = 2 powr of_int L" using hi bnd(1) by simp
    then have "r = x" by (rule N(6))
    then show ?thesis using hi by simp
  next
    case False
    then have "L + 1 \<le> hi" using Lhi by simp
    then have "(2::real) powr of_int (L + 1) \<le> 2 powr of_int hi" by simp
    with N(3) show ?thesis by (rule order_trans)
  qed
  have "(2::real) powr of_int hi < 2 powr of_int emax" using m by simp
  with rhi have "\<bar>r\<bar> < 2 powr of_int emax" by (rule le_less_trans)
  then have "\<not> 2 powr of_int emax \<le> \<bar>r\<bar>" by (simp only: not_le)
  then have "round_to p emin emax x = Fin r" using N(1) by simp
  moreover have "2 powr of_int lo \<le> \<bar>r\<bar>"
  proof -
    have "(2::real) powr of_int lo \<le> 2 powr of_int L" using loL by simp
    then show ?thesis using N(2) by (rule order_trans)
  qed
  moreover have "0 < x \<longleftrightarrow> 0 < r" using N(4) N(5) x0 by (cases "0 < x") (auto simp add: not_less)
  ultimately show ?thesis using rhi by blast
qed

lemma round_to_overflow:
  fixes x :: real
  assumes big: "2 powr of_int emax \<le> \<bar>x\<bar>" and n: "emin \<le> emax - int p + 1" and p: "1 \<le> p"
  shows "round_to p emin emax x = inf_of (0 < x)"
proof -
  define L where "L = \<lfloor>log 2 \<bar>x\<bar>\<rfloor>"
  have x0: "x \<noteq> 0" using big by (auto simp add: not_le)
  have bnd: "2 powr of_int L \<le> \<bar>x\<bar>" "\<bar>x\<bar> < 2 powr of_int (L + 1)"
    using floor_log_eq_powr_iff[of "\<bar>x\<bar>" 2 L] x0 L_def by simp_all
  have "(2::real) powr of_int emax < 2 powr of_int (L + 1)" by (rule le_less_trans[OF big bnd(2)])
  then have eL: "emax \<le> L" by simp
  have n': "emin \<le> L - int p + 1" using n eL by simp
  define r :: real where "r = of_int (round_even (x / 2 powr of_int (L - int p + 1))) * 2 powr of_int (L - int p + 1)"
  note N = round_to_normal[OF x0 L_def n' p, folded r_def]
  have "(2::real) powr of_int emax \<le> 2 powr of_int L" using eL by simp
  then have "2 powr of_int emax \<le> \<bar>r\<bar>" using N(2) by (rule order_trans)
  then show ?thesis using N(1) by simp
qed

text \<open>Evaluation at a number whose binade is known.\<close>

lemma round_to_binade:
  fixes x :: real
  assumes lo: "2 powr of_int k \<le> \<bar>x\<bar>" and hi: "\<bar>x\<bar> < 2 powr of_int (k + 1)"
  shows "round_to p emin emax x =
    (let e = max emin (k - int p + 1);
         r = of_int (round_even (x / 2 powr of_int e)) * 2 powr of_int e
     in if 2 powr of_int emax \<le> \<bar>r\<bar> then inf_of (0 < x) else Fin r)"
proof -
  have x0: "x \<noteq> 0" using lo by (auto simp add: not_le)
  have "\<lfloor>log 2 \<bar>x\<bar>\<rfloor> = k"
    using floor_log_eq_powr_iff[of "\<bar>x\<bar>" 2 k] x0 lo hi by simp
  then show ?thesis using x0 by (simp add: round_to_def)
qed

lemma round_to_zero: "round_to p emin emax 0 = Fin 0"
  by (simp add: round_to_def)

lemma binary64_binade:
  assumes "2 powr of_int k \<le> \<bar>x\<bar>" "\<bar>x\<bar> < 2 powr of_int (k + 1)"
  shows "binary64 (Fin x) =
    (let e = max (- 1074) (k - 52);
         r = of_int (round_even (x / 2 powr of_int e)) * 2 powr of_int e
     in if 2 powr 1024 \<le> \<bar>r\<bar> then inf_of (0 < x) else Fin r)"
  using round_to_binade[OF assms, of 53 "- 1074" 1024] by simp

lemma float32_binade:
  assumes "2 powr of_int k \<le> \<bar>x\<bar>" "\<bar>x\<bar> < 2 powr of_int (k + 1)"
  shows "float32 (Fin x) =
    (let e = max (- 149) (k - 23);
         r = of_int (round_even (x / 2 powr of_int e)) * 2 powr of_int e
     in if 2 powr 128 \<le> \<bar>r\<bar> then inf_of (0 < x) else Fin r)"
  using round_to_binade[OF assms, of 24 "- 149" 128] by simp

lemma two_powr_neg: "(2::real) powr (- numeral n) = 1 / 2 ^ numeral n"
  by (rule powr_neg_numeral) simp

text \<open>Integers below \<open>2^53\<close> are binary64 values, integers below \<open>2^24\<close> binary32 values.\<close>

lemma binary64_int: "\<bar>n\<bar> < 2 ^ 53 \<Longrightarrow> round_to 53 (- 1074) 1024 (of_int n) = Fin (of_int n)"
  using round_to_exact[of "of_int n" n 0 53 "- 1074" 1024]
  by simp

lemma float32_int: "\<bar>n\<bar> < 2 ^ 24 \<Longrightarrow> round_to 24 (- 149) 128 (of_int n) = Fin (of_int n)"
  using round_to_exact[of "of_int n" n 0 24 "- 149" 128]
  by simp

lemma binary64_numeral:
  "(numeral k :: int) < 2 ^ 53 \<Longrightarrow> round_to 53 (- 1074) 1024 (numeral k) = Fin (numeral k)"
  "(numeral k :: int) < 2 ^ 53 \<Longrightarrow> round_to 53 (- 1074) 1024 (- numeral k) = Fin (- numeral k)"
  "round_to 53 (- 1074) 1024 1 = Fin 1"
  "round_to 53 (- 1074) 1024 (- 1) = Fin (- 1)"
  using binary64_int[of "numeral k"] binary64_int[of "- numeral k"] binary64_int[of 1]
    binary64_int[of "- 1"]
  by simp_all

lemma float32_numeral:
  "(numeral k :: int) < 2 ^ 24 \<Longrightarrow> round_to 24 (- 149) 128 (numeral k) = Fin (numeral k)"
  "(numeral k :: int) < 2 ^ 24 \<Longrightarrow> round_to 24 (- 149) 128 (- numeral k) = Fin (- numeral k)"
  "round_to 24 (- 149) 128 1 = Fin 1"
  "round_to 24 (- 149) 128 (- 1) = Fin (- 1)"
  using float32_int[of "numeral k"] float32_int[of "- numeral k"] float32_int[of 1]
    float32_int[of "- 1"]
  by simp_all

lemmas ieee_small = round_to_zero binary64_numeral float32_numeral

text \<open>The two arithmetics, operation by operation.\<close>

lemma exact_ops:
  "rnd exact x = x" "store exact x = x"
  "fadd exact a b = nadd a b" "fsub exact a b = nsub a b"
  "fmul exact a b = nmul a b" "fdiv exact a b = ndiv a b"
  "fsin exact a = Math_sin a" "fcos exact a = Math_cos a" "ftan exact a = Math_tan a"
  "fhypot exact a b c = Math_hypot a b c"
  "Float32Array exact xs = xs"
  by (simp_all add: exact_def fadd_def fsub_def fmul_def fdiv_def fsin_def fcos_def ftan_def
        fhypot_def Float32Array_def)

lemma ieee_ops:
  "rnd ieee x = binary64 x" "store ieee x = float32 x"
  "fadd ieee a b = binary64 (nadd a b)" "fsub ieee a b = binary64 (nsub a b)"
  "fmul ieee a b = binary64 (nmul a b)" "fdiv ieee a b = binary64 (ndiv a b)"
  "fsin ieee a = binary64 (Math_sin a)" "fcos ieee a = binary64 (Math_cos a)"
  "ftan ieee a = binary64 (Math_tan a)"
  "fhypot ieee a b c = binary64 (Math_hypot a b c)"
  "Float32Array ieee xs = map float32 xs"
  by (simp_all add: ieee_def fadd_def fsub_def fmul_def fdiv_def fsin_def fcos_def ftan_def
        fhypot_def Float32Array_def)

lemma create_values:
  "create exact = [Fin 1, Fin 0, Fin 0, Fin 0, Fin 0, Fin 1, Fin 0, Fin 0,
                   Fin 0, Fin 0, Fin 1, Fin 0, Fin 0, Fin 0, Fin 0, Fin 1]"
  "create ieee = [Fin 1, Fin 0, Fin 0, Fin 0, Fin 0, Fin 1, Fin 0, Fin 0,
                  Fin 0, Fin 0, Fin 1, Fin 0, Fin 0, Fin 0, Fin 0, Fin 1]"
  by (simp_all add: create_def exact_ops ieee_ops ieee_small)

section \<open>Auxiliary facts\<close>

lemma nmul_one: "nmul a (Fin 1) = a"
  by (cases a) (simp_all add: inf_of_def)

lemma less_12_cases:
  "(i::nat) < 12 \<Longrightarrow> i = 0 \<or> i = 1 \<or> i = 2 \<or> i = 3 \<or> i = 4 \<or> i = 5 \<or> i = 6 \<or> i = 7 \<or> i = 8
     \<or> i = 9 \<or> i = 10 \<or> i = 11"
  by arith

lemma less_4_cases: "(i::nat) < 4 \<Longrightarrow> i = 0 \<or> i = 1 \<or> i = 2 \<or> i = 3"
  by arith

lemma less_3_cases: "(j::nat) < 3 \<Longrightarrow> j = 0 \<or> j = 1 \<or> j = 2"
  by arith

lemma elt_Cons_0: "elt (a # as) 0 = a"
  by (simp add: elt_def)

lemma elt_Cons_numeral: "elt (a # as) (numeral k) = elt as (pred_numeral k)"
  by (simp add: elt_def numeral_eq_Suc)

lemma elt_Cons_Suc: "elt (a # as) (Suc n) = elt as n"
  by (simp add: elt_def)

lemma elt_Nil: "elt [] n = NaN"
  by (simp add: elt_def)

lemmas elt_list = elt_Cons_0 elt_Cons_numeral elt_Cons_Suc elt_Nil

lemma elt_map_Fin: "i < length mr \<Longrightarrow> elt (map Fin mr) i = Fin (mr ! i)"
  by (simp add: elt_def)

text \<open>
  On a matrix of sixteen finite entries and a finite vector, \<open>translate\<close> without
  rounding is real arithmetic.
\<close>

lemma translate_finite:
  assumes "length mr = 16"
  shows "translate exact (map Fin mr) (Fin x, Fin y, Fin z) =
    map Fin [mr ! 0, mr ! 1, mr ! 2, mr ! 3, mr ! 4, mr ! 5, mr ! 6, mr ! 7,
      mr ! 8, mr ! 9, mr ! 10, mr ! 11,
      mr ! 0 * x + mr ! 4 * y + mr ! 8 * z + mr ! 12,
      mr ! 1 * x + mr ! 5 * y + mr ! 9 * z + mr ! 13,
      mr ! 2 * x + mr ! 6 * y + mr ! 10 * z + mr ! 14,
      mr ! 3 * x + mr ! 7 * y + mr ! 11 * z + mr ! 15]"
  using assms by (simp add: translate_def exact_ops Let_def elt_map_Fin)

section \<open>Translation\<close>

text \<open>
  Under \<open>ieee\<close> the first twelve elements of \<open>translate\<close> are the stored elements of
  the input, and on the identity matrix the last column is the stored vector. The
  integer 33554433 is a binary64 value that is not a binary32 value.
\<close>

lemma float32_33554433: "float32 (Fin 33554433) = Fin 33554432"
  by (subst float32_binade[where k = 25]) (simp_all add: round_even_def Let_def)

lemma translate_ieee_first12:
  assumes "i < 12"
  shows "elt (translate ieee m (x, y, z)) i = float32 (elt m i)"
  using less_12_cases[OF assms]
  by (elim disjE) (simp_all add: translate_def Let_def ieee_ops(11) elt_list)

lemma translate_ieee_identity:
  assumes "binary64 (Fin vx) = Fin vx" "binary64 (Fin vy) = Fin vy" "binary64 (Fin vz) = Fin vz"
  shows "translate ieee (create ieee) (Fin vx, Fin vy, Fin vz) =
     [Fin 1, Fin 0, Fin 0, Fin 0, Fin 0, Fin 1, Fin 0, Fin 0, Fin 0, Fin 0, Fin 1, Fin 0,
      float32 (Fin vx), float32 (Fin vy), float32 (Fin vz), Fin 1]"
  using assms
  by (simp add: translate_def create_values Let_def ieee_ops elt_list ieee_small)

text \<open>
  C5, as first stated, fails for a vector that is not made of binary32 values: the
  translation column of \<open>translate (identity) (33554433, 0, 0)\<close> starts with 33554432.
\<close>

theorem translate_inexact_counterexample:
  "elt (translate ieee (create ieee) (Fin 33554433, Fin 0, Fin 0)) 12 = Fin 33554432 \<and>
   (elt (translate ieee (create ieee) (Fin 33554433, Fin 0, Fin 0)) 12,
    elt (translate ieee (create ieee) (Fin 33554433, Fin 0, Fin 0)) 13,
    elt (translate ieee (create ieee) (Fin 33554433, Fin 0, Fin 0)) 14)
     \<noteq> (Fin 33554433, Fin 0, Fin 0)"
proof -
  have "translate ieee (create ieee) (Fin 33554433, Fin 0, Fin 0) =
     [Fin 1, Fin 0, Fin 0, Fin 0, Fin 0, Fin 1, Fin 0, Fin 0, Fin 0, Fin 0, Fin 1, Fin 0,
      float32 (Fin 33554433), float32 (Fin 0), float32 (Fin 0), Fin 1]"
    by (rule translate_ieee_identity) (simp_all add: ieee_small)
  then show ?thesis
    unfolding float32_33554433 by (simp add: elt_list)
qed

text \<open>
  C5, amended. For every matrix \<open>m\<close> and vector \<open>v\<close>, \<open>translate m v\<close> has sixteen
  elements; its first twelve are the binary32 conversions of those of \<open>m\<close>, hence the
  same numbers when \<open>m\<close> is a \<open>Float32Array\<close>; its last four are the binary32
  conversions of the binary64 values of the upper-left part of \<open>m\<close> applied to \<open>v\<close>
  plus the last column of \<open>m\<close>. On the identity matrix and a vector of binary64
  numbers, elements 12, 13 and 14 are the binary32 conversions of the components of the
  vector: the vector itself when its components are binary32 values. Over the real
  numbers, with nothing rounded, the first twelve elements are those of \<open>m\<close>, the last
  four are the product of \<open>m\<close> with the homogeneous point \<open>(v, 1)\<close>, and on the identity
  matrix elements 12, 13 and 14 are the vector.
\<close>

theorem translate_column:
  "(\<forall>i<12. elt (translate ieee m (x, y, z)) i = float32 (elt m i)) \<and>
   ((\<forall>i<12. float32 (elt m i) = elt m i) \<longrightarrow>
      (\<forall>i<12. elt (translate ieee m (x, y, z)) i = elt m i)) \<and>
   length (translate ieee m (x, y, z)) = 16 \<and>
   (\<forall>r<4. elt (translate ieee m (x, y, z)) (12 + r) =
      float32 (fadd ieee (fadd ieee (fadd ieee (fmul ieee (elt m r) x) (fmul ieee (elt m (4 + r)) y))
                                    (fmul ieee (elt m (8 + r)) z))
                         (elt m (12 + r)))) \<and>
   (binary64 (Fin vx) = Fin vx \<and> binary64 (Fin vy) = Fin vy \<and> binary64 (Fin vz) = Fin vz \<longrightarrow>
      (elt (translate ieee (create ieee) (Fin vx, Fin vy, Fin vz)) 12,
       elt (translate ieee (create ieee) (Fin vx, Fin vy, Fin vz)) 13,
       elt (translate ieee (create ieee) (Fin vx, Fin vy, Fin vz)) 14) =
      (float32 (Fin vx), float32 (Fin vy), float32 (Fin vz))) \<and>
   (float32 (Fin vx) = Fin vx \<and> float32 (Fin vy) = Fin vy \<and> float32 (Fin vz) = Fin vz \<and>
    binary64 (Fin vx) = Fin vx \<and> binary64 (Fin vy) = Fin vy \<and> binary64 (Fin vz) = Fin vz \<longrightarrow>
      (elt (translate ieee (create ieee) (Fin vx, Fin vy, Fin vz)) 12,
       elt (translate ieee (create ieee) (Fin vx, Fin vy, Fin vz)) 13,
       elt (translate ieee (create ieee) (Fin vx, Fin vy, Fin vz)) 14) = (Fin vx, Fin vy, Fin vz)) \<and>
   (\<forall>i<12. elt (translate exact m (x, y, z)) i = elt m i) \<and>
   (elt (translate exact m (x, y, z)) 12, elt (translate exact m (x, y, z)) 13,
    elt (translate exact m (x, y, z)) 14, elt (translate exact m (x, y, z)) 15) =
      transform m (x, y, z, Fin 1) \<and>
   (elt (translate exact (create exact) (Fin vx, Fin vy, Fin vz)) 12,
    elt (translate exact (create exact) (Fin vx, Fin vy, Fin vz)) 13,
    elt (translate exact (create exact) (Fin vx, Fin vy, Fin vz)) 14) = (Fin vx, Fin vy, Fin vz)"
proof -
  have a: "\<forall>i<12. elt (translate ieee m (x, y, z)) i = float32 (elt m i)"
    by (simp add: translate_ieee_first12)
  then have b: "(\<forall>i<12. float32 (elt m i) = elt m i) \<longrightarrow>
      (\<forall>i<12. elt (translate ieee m (x, y, z)) i = elt m i)"
    by simp
  have c: "length (translate ieee m (x, y, z)) = 16"
    by (simp add: translate_def Let_def Float32Array_def)
  have d: "\<forall>r<4. elt (translate ieee m (x, y, z)) (12 + r) =
      float32 (fadd ieee (fadd ieee (fadd ieee (fmul ieee (elt m r) x) (fmul ieee (elt m (4 + r)) y))
                                    (fmul ieee (elt m (8 + r)) z))
                         (elt m (12 + r)))"
  proof (intro allI impI)
    fix r :: nat assume "r < 4"
    from less_4_cases[OF this]
    show "elt (translate ieee m (x, y, z)) (12 + r) =
      float32 (fadd ieee (fadd ieee (fadd ieee (fmul ieee (elt m r) x) (fmul ieee (elt m (4 + r)) y))
                                    (fmul ieee (elt m (8 + r)) z))
                         (elt m (12 + r)))"
      by (elim disjE) (simp_all add: translate_def Let_def ieee_ops(11) elt_list)
  qed
  have e: "binary64 (Fin vx) = Fin vx \<and> binary64 (Fin vy) = Fin vy \<and> binary64 (Fin vz) = Fin vz \<longrightarrow>
      (elt (translate ieee (create ieee) (Fin vx, Fin vy, Fin vz)) 12,
       elt (translate ieee (create ieee) (Fin vx, Fin vy, Fin vz)) 13,
       elt (translate ieee (create ieee) (Fin vx, Fin vy, Fin vz)) 14) =
      (float32 (Fin vx), float32 (Fin vy), float32 (Fin vz))"
    using translate_ieee_identity[of vx vy vz] by (auto simp add: elt_list)
  then have f: "float32 (Fin vx) = Fin vx \<and> float32 (Fin vy) = Fin vy \<and> float32 (Fin vz) = Fin vz \<and>
    binary64 (Fin vx) = Fin vx \<and> binary64 (Fin vy) = Fin vy \<and> binary64 (Fin vz) = Fin vz \<longrightarrow>
      (elt (translate ieee (create ieee) (Fin vx, Fin vy, Fin vz)) 12,
       elt (translate ieee (create ieee) (Fin vx, Fin vy, Fin vz)) 13,
       elt (translate ieee (create ieee) (Fin vx, Fin vy, Fin vz)) 14) = (Fin vx, Fin vy, Fin vz)"
    by metis
  have g: "\<forall>i<12. elt (translate exact m (x, y, z)) i = elt m i"
  proof (intro allI impI)
    fix i :: nat assume "i < 12"
    from less_12_cases[OF this] show "elt (translate exact m (x, y, z)) i = elt m i"
      by (elim disjE) (simp_all add: translate_def exact_ops Let_def elt_list)
  qed
  have h: "(elt (translate exact m (x, y, z)) 12, elt (translate exact m (x, y, z)) 13,
    elt (translate exact m (x, y, z)) 14, elt (translate exact m (x, y, z)) 15) =
      transform m (x, y, z, Fin 1)"
    by (simp add: translate_def exact_ops Let_def transform_def row_dot_def nmul_one elt_list)
  have k: "(elt (translate exact (create exact) (Fin vx, Fin vy, Fin vz)) 12,
    elt (translate exact (create exact) (Fin vx, Fin vy, Fin vz)) 13,
    elt (translate exact (create exact) (Fin vx, Fin vy, Fin vz)) 14) = (Fin vx, Fin vy, Fin vz)"
    by (simp add: translate_def exact_ops Let_def create_values elt_list)
  from a b c d e f g h k show ?thesis by blast
qed

theorem translate_column_witness:
  "(5::nat) < 12 \<and> float32 (elt (create ieee) 5) = elt (create ieee) 5 \<and>
   binary64 (Fin 2) = Fin 2 \<and> binary64 (Fin 3) = Fin 3 \<and> binary64 (Fin 4) = Fin 4 \<and>
   float32 (Fin 2) = Fin 2 \<and> float32 (Fin 3) = Fin 3 \<and> float32 (Fin 4) = Fin 4 \<and>
   elt (translate ieee (create ieee) (Fin 2, Fin 3, Fin 4)) 5 = Fin 1 \<and>
   (elt (translate ieee (create ieee) (Fin 2, Fin 3, Fin 4)) 12,
    elt (translate ieee (create ieee) (Fin 2, Fin 3, Fin 4)) 13,
    elt (translate ieee (create ieee) (Fin 2, Fin 3, Fin 4)) 14) = (Fin 2, Fin 3, Fin 4)"
proof -
  have f: "\<forall>i<12. float32 (elt (create ieee) i) = elt (create ieee) i"
  proof (intro allI impI)
    fix i :: nat assume "i < 12"
    from less_12_cases[OF this] show "float32 (elt (create ieee) i) = elt (create ieee) i"
      by (elim disjE) (simp_all add: create_values elt_list ieee_small)
  qed
  have v: "binary64 (Fin 2) = Fin 2" "binary64 (Fin 3) = Fin 3" "binary64 (Fin 4) = Fin 4"
    "float32 (Fin 2) = Fin 2" "float32 (Fin 3) = Fin 3" "float32 (Fin 4) = Fin 4"
    by (simp_all add: ieee_small)
  note T = translate_column[of "create ieee" "Fin 2" "Fin 3" "Fin 4" 2 3 4]
  from T f have "\<forall>i<12. elt (translate ieee (create ieee) (Fin 2, Fin 3, Fin 4)) i = elt (create ieee) i"
    by blast
  then have "elt (translate ieee (create ieee) (Fin 2, Fin 3, Fin 4)) 5 = elt (create ieee) 5"
    by simp
  then have a: "elt (translate ieee (create ieee) (Fin 2, Fin 3, Fin 4)) 5 = Fin 1"
    by (simp add: create_values elt_list)
  from T v have b: "(elt (translate ieee (create ieee) (Fin 2, Fin 3, Fin 4)) 12,
    elt (translate ieee (create ieee) (Fin 2, Fin 3, Fin 4)) 13,
    elt (translate ieee (create ieee) (Fin 2, Fin 3, Fin 4)) 14) = (Fin 2, Fin 3, Fin 4)"
    by blast
  have "float32 (elt (create ieee) 5) = elt (create ieee) 5" using f by simp
  with v a b show ?thesis by simp
qed

text \<open>
  C10. For every matrix \<open>m\<close> of sixteen real entries and all real vectors \<open>u\<close> and \<open>v\<close>,
  translating by \<open>u\<close> and then by \<open>v\<close> is translating by the componentwise sum
  \<open>u + v\<close>, exactly over real arithmetic.
\<close>

theorem translate_additive:
  assumes "length mr = 16"
  shows "translate exact (translate exact (map Fin mr) (Fin ux, Fin uy, Fin uz)) (Fin vx, Fin vy, Fin vz) =
         translate exact (map Fin mr) (Fin (ux + vx), Fin (uy + vy), Fin (uz + vz))"
proof -
  let ?n = "[mr ! 0, mr ! 1, mr ! 2, mr ! 3, mr ! 4, mr ! 5, mr ! 6, mr ! 7,
      mr ! 8, mr ! 9, mr ! 10, mr ! 11,
      mr ! 0 * ux + mr ! 4 * uy + mr ! 8 * uz + mr ! 12,
      mr ! 1 * ux + mr ! 5 * uy + mr ! 9 * uz + mr ! 13,
      mr ! 2 * ux + mr ! 6 * uy + mr ! 10 * uz + mr ! 14,
      mr ! 3 * ux + mr ! 7 * uy + mr ! 11 * uz + mr ! 15]"
  have len: "length ?n = 16" by simp
  have "translate exact (translate exact (map Fin mr) (Fin ux, Fin uy, Fin uz)) (Fin vx, Fin vy, Fin vz) =
        translate exact (map Fin ?n) (Fin vx, Fin vy, Fin vz)"
    by (simp only: translate_finite[OF assms])
  also have "\<dots> = translate exact (map Fin mr) (Fin (ux + vx), Fin (uy + vy), Fin (uz + vz))"
    unfolding translate_finite[OF len] translate_finite[OF assms]
    by (simp add: algebra_simps)
  finally show ?thesis .
qed

theorem translate_additive_witness:
  "translate exact (translate exact (create exact) (Fin 1, Fin 2, Fin 3)) (Fin 4, Fin 5, Fin 6) =
   translate exact (create exact) (Fin 5, Fin 7, Fin 9)"
proof -
  have c: "create exact = map Fin [1, 0, 0, 0, 0, 1, 0, 0, 0, 0, 1, 0, 0, 0, 0, 1]"
    by (simp add: create_values)
  have "length [1, 0, 0, 0, 0, 1, 0, 0, 0, 0, 1, 0, 0, 0, 0, 1 :: real] = 16" by simp
  from translate_additive[OF this, of 1 2 3 4 5 6] show ?thesis
    unfolding c by simp
qed

section \<open>The cubes\<close>

text \<open>Every index of the edge list is an index of the vertex list.\<close>

lemma draw_line_edge_calls: "draw_line env c ctx e = ctx @ edge_calls env c e"
  by (cases e)
     (simp add: draw_line_def edge_calls_def screen_point_def world_vertex_def Let_def
           split: prod.splits)

lemma foldl_draw_line:
  "foldl (draw_line env c) ctx es = ctx @ concat (map (edge_calls env c) es)"
  by (induction es arbitrary: ctx) (simp_all add: draw_line_edge_calls)

lemma lines_in_range: "\<forall>e \<in> set lines. fst e < length vertices \<and> snd e < length vertices"
  by (simp add: lines_def vertices_def)

text \<open>
  C2. For all real \<open>x\<close>, \<open>y\<close>, \<open>z\<close>, every real field-of-view constant \<open>F\<close> with
  \<open>F + z\<close> nonzero and every real viewport size, \<open>project\<close> returns the size
  \<open>F / (F + z)\<close>, the abscissa \<open>x * (F / (F + z)) + width / 2\<close> and the ordinate
  \<open>y * (F / (F + z)) + height / 2\<close>. With \<open>F = 400\<close> and the viewport 800 by 600,
  the corner \<open>(-1, -1, -1)\<close> of a cube at the origin with radius 10 is the world point
  \<open>(-10, -10, -10)\<close>; its size is \<open>400 / 390\<close>, within 0.0001 of 1.0256, its abscissa
  is within 0.01 of 389.74, and its ordinate is the same number on a square viewport
  of side 800 and has the centre term 300 on the viewport of height 600.
\<close>

theorem project_formula:
  "(F + z \<noteq> 0 \<longrightarrow>
     project \<lparr>FIELD_OF_VIEW = Fin F, clientWidth = Fin w, clientHeight = Fin h\<rparr>
        (Fin x) (Fin y) (Fin z) =
     \<lparr>proj_size = Fin (F / (F + z)),
      proj_x = Fin (x * (F / (F + z)) + w / 2),
      proj_y = Fin (y * (F / (F + z)) + h / 2)\<rparr>) \<and>
   world_vertex \<lparr>cube_x = Fin 0, cube_y = Fin 0, cube_z = Fin 0, radius = Fin 10\<rparr> 0 =
     (Fin (- 10), Fin (- 10), Fin (- 10)) \<and>
   project \<lparr>FIELD_OF_VIEW = Fin 400, clientWidth = Fin 800, clientHeight = Fin 600\<rparr>
      (Fin (- 10)) (Fin (- 10)) (Fin (- 10)) =
     \<lparr>proj_size = Fin (400 / 390),
      proj_x = Fin (- 10 * (400 / 390) + 400),
      proj_y = Fin (- 10 * (400 / 390) + 300)\<rparr> \<and>
   proj_y (project \<lparr>FIELD_OF_VIEW = Fin 400, clientWidth = Fin 800, clientHeight = Fin 800\<rparr>
      (Fin (- 10)) (Fin (- 10)) (Fin (- 10))) = Fin (- 10 * (400 / 390) + 400) \<and>
   \<bar>400 / 390 - 1.0256 :: real\<bar> < 0.0001 \<and>
   \<bar>- 10 * (400 / 390) + 400 - 389.74 :: real\<bar> < 0.01"
  by (simp add: project_def Let_def world_vertex_def vertices_def)

theorem project_formula_witness:
  "(400::real) + 100 \<noteq> 0 \<and>
   project \<lparr>FIELD_OF_VIEW = Fin 400, clientWidth = Fin 800, clientHeight = Fin 600\<rparr>
      (Fin 5) (Fin 10) (Fin 100) = \<lparr>proj_size = Fin (4 / 5), proj_x = Fin 404, proj_y = Fin 308\<rparr>"
proof -
  have h: "(400::real) + 100 \<noteq> 0" by simp
  from project_formula[of 400 100 800 600 5 10] h
  have "project \<lparr>FIELD_OF_VIEW = Fin 400, clientWidth = Fin 800, clientHeight = Fin 600\<rparr>
        (Fin 5) (Fin 10) (Fin 100) =
     \<lparr>proj_size = Fin (400 / (400 + 100)),
      proj_x = Fin (5 * (400 / (400 + 100)) + 800 / 2),
      proj_y = Fin (10 * (400 / (400 + 100)) + 600 / 2)\<rparr>"
    by blast
  then show ?thesis by simp
qed

text \<open>
  C3. \<open>draw\<close> leaves the drawing context as it is exactly when
  \<open>z < -FIELD_OF_VIEW + radius\<close> holds for the entity; otherwise it appends, for each
  of the twelve distinct edges in the order of the edge list, one stroked path between
  the projections of the two ends. With the constant 400 and radius 10, an entity at
  \<open>z = -500\<close> is skipped and an entity at \<open>z = -100\<close> is drawn.
\<close>

theorem draw_cull:
  "(draw env c ctx = ctx \<longleftrightarrow> nlt (cube_z c) (nadd (nneg (FIELD_OF_VIEW env)) (radius c))) \<and>
   (\<not> nlt (cube_z c) (nadd (nneg (FIELD_OF_VIEW env)) (radius c)) \<longrightarrow>
      draw env c ctx = ctx @ concat (map (edge_calls env c) lines)) \<and>
   length lines = 12 \<and> distinct lines \<and>
   draw \<lparr>FIELD_OF_VIEW = Fin 400, clientWidth = w, clientHeight = h\<rparr>
        \<lparr>cube_x = cx, cube_y = cy, cube_z = Fin (- 500), radius = Fin 10\<rparr> ctx = ctx \<and>
   draw \<lparr>FIELD_OF_VIEW = Fin 400, clientWidth = w, clientHeight = h\<rparr>
        \<lparr>cube_x = cx, cube_y = cy, cube_z = Fin (- 100), radius = Fin 10\<rparr> ctx =
     ctx @ concat (map (edge_calls \<lparr>FIELD_OF_VIEW = Fin 400, clientWidth = w, clientHeight = h\<rparr>
        \<lparr>cube_x = cx, cube_y = cy, cube_z = Fin (- 100), radius = Fin 10\<rparr>) lines)"
proof -
  have ne: "concat (map (edge_calls env c) lines) \<noteq> []"
    by (simp add: lines_def edge_calls_def)
  have 1: "draw env c ctx = ctx \<longleftrightarrow> nlt (cube_z c) (nadd (nneg (FIELD_OF_VIEW env)) (radius c))"
    using ne by (simp add: draw_def foldl_draw_line)
  have 2: "\<not> nlt (cube_z c) (nadd (nneg (FIELD_OF_VIEW env)) (radius c)) \<longrightarrow>
      draw env c ctx = ctx @ concat (map (edge_calls env c) lines)"
    by (simp add: draw_def foldl_draw_line)
  have 3: "length lines = 12 \<and> distinct lines" by (simp add: lines_def)
  have 4: "draw \<lparr>FIELD_OF_VIEW = Fin 400, clientWidth = w, clientHeight = h\<rparr>
        \<lparr>cube_x = cx, cube_y = cy, cube_z = Fin (- 500), radius = Fin 10\<rparr> ctx = ctx"
    by (simp add: draw_def)
  have 5: "draw \<lparr>FIELD_OF_VIEW = Fin 400, clientWidth = w, clientHeight = h\<rparr>
        \<lparr>cube_x = cx, cube_y = cy, cube_z = Fin (- 100), radius = Fin 10\<rparr> ctx =
     ctx @ concat (map (edge_calls \<lparr>FIELD_OF_VIEW = Fin 400, clientWidth = w, clientHeight = h\<rparr>
        \<lparr>cube_x = cx, cube_y = cy, cube_z = Fin (- 100), radius = Fin 10\<rparr>) lines)"
    by (simp add: draw_def foldl_draw_line)
  from 1 2 3 4 5 show ?thesis by blast
qed

theorem draw_cull_witness:
  "\<not> nlt (Fin 0) (nadd (nneg (Fin 400)) (Fin 10)) \<and>
   length (draw \<lparr>FIELD_OF_VIEW = Fin 400, clientWidth = Fin 800, clientHeight = Fin 600\<rparr>
        \<lparr>cube_x = Fin 0, cube_y = Fin 0, cube_z = Fin 0, radius = Fin 10\<rparr> []) = 48"
proof -
  have h: "\<not> nlt (Fin 0) (nadd (nneg (Fin 400)) (Fin 10))" by simp
  from draw_cull[of "\<lparr>FIELD_OF_VIEW = Fin 400, clientWidth = Fin 800, clientHeight = Fin 600\<rparr>"
      "\<lparr>cube_x = Fin 0, cube_y = Fin 0, cube_z = Fin 0, radius = Fin 10\<rparr>" "[]"] h
  have "draw \<lparr>FIELD_OF_VIEW = Fin 400, clientWidth = Fin 800, clientHeight = Fin 600\<rparr>
        \<lparr>cube_x = Fin 0, cube_y = Fin 0, cube_z = Fin 0, radius = Fin 10\<rparr> [] =
     [] @ concat (map (edge_calls \<lparr>FIELD_OF_VIEW = Fin 400, clientWidth = Fin 800, clientHeight = Fin 600\<rparr>
        \<lparr>cube_x = Fin 0, cube_y = Fin 0, cube_z = Fin 0, radius = Fin 10\<rparr>) lines)"
    by simp
  then show ?thesis using h by (simp add: lines_def edge_calls_def)
qed

section \<open>Perspective projection\<close>

text \<open>The binary64 and binary32 values behind the depth entries for near 1 and far 4.\<close>

lemma depth_steps:
  "fsub ieee (Fin 1) (Fin 4) = Fin (- 3)"
  "fdiv ieee (Fin 1) (Fin (- 3)) = Fin (- 6004799503160661 / 18014398509481984)"
  "fadd ieee (Fin 4) (Fin 1) = Fin 5"
  "fmul ieee (Fin 5) (Fin (- 6004799503160661 / 18014398509481984)) =
     Fin (- 7505999378950826 / 4503599627370496)"
  "float32 (Fin (- 7505999378950826 / 4503599627370496)) = Fin (- 13981013 / 8388608)"
  "fmul ieee (Fin 2) (Fin 4) = Fin 8"
  "fmul ieee (Fin 8) (Fin 1) = Fin 8"
  "fmul ieee (Fin 8) (Fin (- 6004799503160661 / 18014398509481984)) =
     Fin (- 6004799503160661 / 2251799813685248)"
  "float32 (Fin (- 6004799503160661 / 2251799813685248)) = Fin (- 11184811 / 4194304)"
proof -
  show "fsub ieee (Fin 1) (Fin 4) = Fin (- 3)"
    by (simp add: ieee_ops nsub_def ieee_small)
  have "binary64 (Fin (- 1 / 3)) = Fin (- 6004799503160661 / 18014398509481984)"
    by (subst binary64_binade[where k = "- 2"])
       (simp_all add: round_even_def Let_def two_powr_neg)
  then show "fdiv ieee (Fin 1) (Fin (- 3)) = Fin (- 6004799503160661 / 18014398509481984)"
    by (simp add: ieee_ops)
  show "fadd ieee (Fin 4) (Fin 1) = Fin 5"
    by (simp add: ieee_ops ieee_small)
  have "binary64 (Fin (5 * (- 6004799503160661 / 18014398509481984))) =
      Fin (- 7505999378950826 / 4503599627370496)"
    by (subst binary64_binade[where k = 0])
       (simp_all add: round_even_def Let_def two_powr_neg)
  then show "fmul ieee (Fin 5) (Fin (- 6004799503160661 / 18014398509481984)) =
     Fin (- 7505999378950826 / 4503599627370496)"
    by (simp add: ieee_ops)
  show "float32 (Fin (- 7505999378950826 / 4503599627370496)) = Fin (- 13981013 / 8388608)"
    by (subst float32_binade[where k = 0])
       (simp_all add: round_even_def Let_def two_powr_neg)
  show "fmul ieee (Fin 2) (Fin 4) = Fin 8" "fmul ieee (Fin 8) (Fin 1) = Fin 8"
    by (simp_all add: ieee_ops ieee_small)
  have "binary64 (Fin (8 * (- 6004799503160661 / 18014398509481984))) =
      Fin (- 6004799503160661 / 2251799813685248)"
    by (subst binary64_binade[where k = 1])
       (simp_all add: round_even_def Let_def two_powr_neg)
  then show "fmul ieee (Fin 8) (Fin (- 6004799503160661 / 18014398509481984)) =
     Fin (- 6004799503160661 / 2251799813685248)"
    by (simp add: ieee_ops)
  show "float32 (Fin (- 6004799503160661 / 2251799813685248)) = Fin (- 11184811 / 4194304)"
    by (subst float32_binade[where k = 1])
       (simp_all add: round_even_def Let_def two_powr_neg)
qed

lemma focal_finite:
  assumes "0 < fovy" "fovy < pi"
  shows "ndiv (Fin 1) (Math_tan (Fin (fovy / 2))) = Fin (1 / tan (fovy / 2))"
    and "tan (fovy / 2) > 0"
proof -
  have c: "0 < cos (fovy / 2)" using assms by (intro cos_gt_zero_pi) simp_all
  have s: "0 < sin (fovy / 2)" using assms by (intro sin_gt_zero) simp_all
  show t: "tan (fovy / 2) > 0" using c s by (simp add: tan_def)
  have "Math_tan (Fin (fovy / 2)) = Fin (tan (fovy / 2))"
    using c by (simp add: Math_tan_def tan_def)
  then show "ndiv (Fin 1) (Math_tan (Fin (fovy / 2))) = Fin (1 / tan (fovy / 2))"
    using t by simp
qed

lemma perspective_finite:
  assumes "0 < fovy" "fovy < pi" "0 < aspect" "far \<noteq> near"
  shows "perspective exact (Fin fovy) (Fin aspect) (Fin near) (Some (Fin far)) =
     [Fin (1 / tan (fovy / 2) / aspect), Fin 0, Fin 0, Fin 0,
      Fin 0, Fin (1 / tan (fovy / 2)), Fin 0, Fin 0,
      Fin 0, Fin 0, Fin ((far + near) * (1 / (near - far))), Fin (- 1),
      Fin 0, Fin 0, Fin (2 * far * near * (1 / (near - far))), Fin 0]"
  using assms
  by (simp add: perspective_def exact_ops focal_finite(1) Let_def nsub_def)

lemma perspective_infinite:
  assumes "0 < fovy" "fovy < pi" "0 < aspect" "fo = None \<or> fo = Some PInf"
  shows "perspective exact (Fin fovy) (Fin aspect) (Fin near) fo =
     [Fin (1 / tan (fovy / 2) / aspect), Fin 0, Fin 0, Fin 0,
      Fin 0, Fin (1 / tan (fovy / 2)), Fin 0, Fin 0,
      Fin 0, Fin 0, Fin (- 1), Fin (- 1),
      Fin 0, Fin 0, Fin (- 2 * near), Fin 0]"
  using assms
  by (auto simp add: perspective_def exact_ops focal_finite(1) Let_def)

lemma perspective_equal_planes:
  assumes "0 < fovy" "fovy < pi" "0 < aspect" "0 < near"
  shows "perspective exact (Fin fovy) (Fin aspect) (Fin near) (Some (Fin near)) =
     [Fin (1 / tan (fovy / 2) / aspect), Fin 0, Fin 0, Fin 0,
      Fin 0, Fin (1 / tan (fovy / 2)), Fin 0, Fin 0,
      Fin 0, Fin 0, PInf, Fin (- 1),
      Fin 0, Fin 0, PInf, Fin 0]"
  using assms
  by (simp add: perspective_def exact_ops focal_finite(1) Let_def nsub_def inf_of_def)

text \<open>
  Negative infinity is not the constant \<open>Infinity\<close> that the test of \<open>perspective\<close>
  looks for: it takes the branch of the finite numbers, where \<open>1 / (near - far)\<close> is
  zero and both depth entries are NaN.
\<close>

lemma perspective_negative_infinity:
  "elt (perspective ieee fovy aspect (Fin near) (Some NInf)) 10 = NaN \<and>
   elt (perspective ieee fovy aspect (Fin near) (Some NInf)) 14 = NaN"
  by (simp add: perspective_def ieee_ops Let_def nsub_def elt_list inf_of_def ieee_small)

text \<open>
  Under \<open>ieee\<close> the matrix has the same shape for every input: the zeros and the -1
  are stored exactly, the other entries are the binary32 conversions of binary64 values.
\<close>

lemma perspective_ieee_finite_far:
  assumes "fr \<noteq> PInf"
  shows "perspective ieee fovy aspect near (Some fr) =
    [float32 (fdiv ieee (fdiv ieee (Fin 1) (ftan ieee (fdiv ieee fovy (Fin 2)))) aspect),
     Fin 0, Fin 0, Fin 0,
     Fin 0, float32 (fdiv ieee (Fin 1) (ftan ieee (fdiv ieee fovy (Fin 2)))), Fin 0, Fin 0,
     Fin 0, Fin 0,
     float32 (fmul ieee (fadd ieee fr near) (fdiv ieee (Fin 1) (fsub ieee near fr))),
     Fin (- 1),
     Fin 0, Fin 0,
     float32 (fmul ieee (fmul ieee (fmul ieee (Fin 2) fr) near)
                (fdiv ieee (Fin 1) (fsub ieee near fr))),
     Fin 0]"
  using assms
  by (cases fr) (simp_all add: perspective_def Let_def ieee_ops(2,11) ieee_small)

lemma perspective_ieee_infinite_far:
  assumes "fo = None \<or> fo = Some PInf"
  shows "perspective ieee fovy aspect near fo =
    [float32 (fdiv ieee (fdiv ieee (Fin 1) (ftan ieee (fdiv ieee fovy (Fin 2)))) aspect),
     Fin 0, Fin 0, Fin 0,
     Fin 0, float32 (fdiv ieee (Fin 1) (ftan ieee (fdiv ieee fovy (Fin 2)))), Fin 0, Fin 0,
     Fin 0, Fin 0, Fin (- 1), Fin (- 1),
     Fin 0, Fin 0, float32 (fmul ieee (Fin (- 2)) near), Fin 0]"
  using assms
  by (auto simp add: perspective_def Let_def ieee_ops(2,11) ieee_small)

text \<open>With near 1 and far 4 the two depth entries are not the real quotients.\<close>

lemma perspective_ieee_1_4:
  "perspective ieee fovy aspect (Fin 1) (Some (Fin 4)) =
    [float32 (fdiv ieee (fdiv ieee (Fin 1) (ftan ieee (fdiv ieee fovy (Fin 2)))) aspect),
     Fin 0, Fin 0, Fin 0,
     Fin 0, float32 (fdiv ieee (Fin 1) (ftan ieee (fdiv ieee fovy (Fin 2)))), Fin 0, Fin 0,
     Fin 0, Fin 0, Fin (- 13981013 / 8388608), Fin (- 1),
     Fin 0, Fin 0, Fin (- 11184811 / 4194304), Fin 0]"
proof -
  have ne: "Fin 4 \<noteq> PInf" by simp
  show ?thesis
    unfolding perspective_ieee_finite_far[OF ne] depth_steps by (rule refl)
qed

text \<open>
  C1, as first stated, has two exceptions. Negative infinity is a number that is not
  finite, and there elements 10 and 14 are NaN, not -1 and \<open>-2 * near\<close>. And the
  elements are binary32 values: with near 1 and far 4 element 10 is
  \<open>-13981013 / 8388608\<close>, not \<open>(far + near) * (1 / (near - far)) = -5/3\<close>.
\<close>

theorem perspective_matrix_counterexample:
  "elt (perspective ieee (Fin 1) (Fin 1) (Fin 1) (Some NInf)) 10 = NaN \<and>
   elt (perspective ieee (Fin 1) (Fin 1) (Fin 1) (Some NInf)) 10 \<noteq> Fin (- 1) \<and>
   elt (perspective ieee (Fin 1) (Fin 1) (Fin 1) (Some (Fin 4))) 10 = Fin (- 13981013 / 8388608) \<and>
   elt (perspective ieee (Fin 1) (Fin 1) (Fin 1) (Some (Fin 4))) 10
     \<noteq> Fin ((4 + 1) * (1 / (1 - 4)))"
proof -
  have "elt (perspective ieee (Fin 1) (Fin 1) (Fin 1) (Some NInf)) 10 = NaN"
    using perspective_negative_infinity[of "Fin 1" "Fin 1" 1] by simp
  moreover have "elt (perspective ieee (Fin 1) (Fin 1) (Fin 1) (Some (Fin 4))) 10 =
      Fin (- 13981013 / 8388608)"
    unfolding perspective_ieee_1_4 by (simp add: elt_list)
  ultimately show ?thesis by simp
qed

text \<open>
  C1, amended. For every input \<open>perspective\<close> returns sixteen elements of which
  element 11 is -1 and all but elements 0, 5, 10 and 14 are 0. Element 0 is the binary32
  conversion of the binary64 quotient \<open>f / aspect\<close> and element 5 that of \<open>f\<close>, where
  \<open>f\<close> is the binary64 value of \<open>1 / tan (fovy / 2)\<close>. When \<open>far\<close> is \<open>null\<close> or
  positive infinity, element 10 is -1 and element 14 is the binary32 conversion of
  \<open>-2 * near\<close>; for every other \<open>far\<close> elements 10 and 14 are the binary32 conversions
  of the binary64 values of \<open>(far + near) * nf\<close> and \<open>2 * far * near * nf\<close> with
  \<open>nf = 1 / (near - far)\<close>. Read over the real numbers, with nothing rounded, and for a
  field of view in \<open>(0, \<pi>)\<close>, an aspect ratio and a near plane above 0 and a real
  \<open>far\<close>, the elements are the real numbers of the first statement where
  \<open>far \<noteq> near\<close>, and elements 10 and 14 are infinite where \<open>far = near\<close>.
\<close>

theorem perspective_matrix:
  "(fr \<noteq> PInf \<longrightarrow>
     perspective ieee fovy aspect near (Some fr) =
      [float32 (fdiv ieee (fdiv ieee (Fin 1) (ftan ieee (fdiv ieee fovy (Fin 2)))) aspect),
       Fin 0, Fin 0, Fin 0,
       Fin 0, float32 (fdiv ieee (Fin 1) (ftan ieee (fdiv ieee fovy (Fin 2)))), Fin 0, Fin 0,
       Fin 0, Fin 0,
       float32 (fmul ieee (fadd ieee fr near) (fdiv ieee (Fin 1) (fsub ieee near fr))),
       Fin (- 1),
       Fin 0, Fin 0,
       float32 (fmul ieee (fmul ieee (fmul ieee (Fin 2) fr) near)
                  (fdiv ieee (Fin 1) (fsub ieee near fr))),
       Fin 0]) \<and>
   (fo = None \<or> fo = Some PInf \<longrightarrow>
     perspective ieee fovy aspect near fo =
      [float32 (fdiv ieee (fdiv ieee (Fin 1) (ftan ieee (fdiv ieee fovy (Fin 2)))) aspect),
       Fin 0, Fin 0, Fin 0,
       Fin 0, float32 (fdiv ieee (Fin 1) (ftan ieee (fdiv ieee fovy (Fin 2)))), Fin 0, Fin 0,
       Fin 0, Fin 0, Fin (- 1), Fin (- 1),
       Fin 0, Fin 0, float32 (fmul ieee (Fin (- 2)) near), Fin 0]) \<and>
   (0 < fv \<and> fv < pi \<and> 0 < asp \<and> 0 < nr \<longrightarrow>
     (far \<noteq> nr \<longrightarrow>
       perspective exact (Fin fv) (Fin asp) (Fin nr) (Some (Fin far)) =
        [Fin (1 / tan (fv / 2) / asp), Fin 0, Fin 0, Fin 0,
         Fin 0, Fin (1 / tan (fv / 2)), Fin 0, Fin 0,
         Fin 0, Fin 0, Fin ((far + nr) * (1 / (nr - far))), Fin (- 1),
         Fin 0, Fin 0, Fin (2 * far * nr * (1 / (nr - far))), Fin 0]) \<and>
     (far = nr \<longrightarrow>
       perspective exact (Fin fv) (Fin asp) (Fin nr) (Some (Fin far)) =
        [Fin (1 / tan (fv / 2) / asp), Fin 0, Fin 0, Fin 0,
         Fin 0, Fin (1 / tan (fv / 2)), Fin 0, Fin 0,
         Fin 0, Fin 0, PInf, Fin (- 1),
         Fin 0, Fin 0, PInf, Fin 0]) \<and>
     (fo = None \<or> fo = Some PInf \<longrightarrow>
       perspective exact (Fin fv) (Fin asp) (Fin nr) fo =
        [Fin (1 / tan (fv / 2) / asp), Fin 0, Fin 0, Fin 0,
         Fin 0, Fin (1 / tan (fv / 2)), Fin 0, Fin 0,
         Fin 0, Fin 0, Fin (- 1), Fin (- 1),
         Fin 0, Fin 0, Fin (- 2 * nr), Fin 0]))"
  using perspective_ieee_finite_far[of fr fovy aspect near]
    perspective_ieee_infinite_far[of fo fovy aspect near]
    perspective_finite[of fv asp far nr] perspective_infinite[of fv asp fo nr]
    perspective_equal_planes[of fv asp nr]
  by blast

theorem perspective_matrix_witness:
  "Fin 3 \<noteq> PInf \<and> (Some PInf = None \<or> Some PInf = Some PInf) \<and>
   (0::real) < pi / 2 \<and> pi / 2 < pi \<and> (0::real) < 2 \<and> (0::real) < 1 \<and> (3::real) \<noteq> 1 \<and>
   elt (perspective ieee (Fin 1) (Fin 1) (Fin 1) (Some (Fin 3))) 10 = Fin (- 2) \<and>
   elt (perspective ieee (Fin 1) (Fin 1) (Fin 1) (Some (Fin 3))) 14 = Fin (- 3) \<and>
   elt (perspective ieee (Fin 1) (Fin 1) (Fin 1) (Some PInf)) 14 = Fin (- 2) \<and>
   perspective exact (Fin (pi / 2)) (Fin 2) (Fin 1) (Some (Fin 3)) =
     [Fin (1 / 2), Fin 0, Fin 0, Fin 0,
      Fin 0, Fin 1, Fin 0, Fin 0,
      Fin 0, Fin 0, Fin (- 2), Fin (- 1),
      Fin 0, Fin 0, Fin (- 3), Fin 0] \<and>
   perspective exact (Fin (pi / 2)) (Fin 2) (Fin 1) (Some PInf) =
     [Fin (1 / 2), Fin 0, Fin 0, Fin 0,
      Fin 0, Fin 1, Fin 0, Fin 0,
      Fin 0, Fin 0, Fin (- 1), Fin (- 1),
      Fin 0, Fin 0, Fin (- 2), Fin 0]"
proof -
  have h: "(0::real) < pi / 2" "pi / 2 < pi" "(0::real) < 2" "(0::real) < 1" by simp_all
  have g: "Fin 3 \<noteq> PInf" "Some PInf = None \<or> Some PInf = Some PInf" "(3::real) \<noteq> 1"
    by simp_all
  have t: "tan (pi / 4) = 1" by (rule tan_45)
  have half: "binary64 (Fin (- 1 / 2)) = Fin (- 1 / 2)"
    using round_to_exact[of "- 1 / 2" "- 1" "- 1" 53 "- 1074" 1024] by (simp add: two_powr_neg)
  note P = perspective_matrix[of "Fin 3" "Fin 1" "Fin 1" "Fin 1" "Some PInf" "pi / 2" 2 1 3]
  from P g have a: "perspective ieee (Fin 1) (Fin 1) (Fin 1) (Some (Fin 3)) =
      [float32 (fdiv ieee (fdiv ieee (Fin 1) (ftan ieee (fdiv ieee (Fin 1) (Fin 2)))) (Fin 1)),
       Fin 0, Fin 0, Fin 0,
       Fin 0, float32 (fdiv ieee (Fin 1) (ftan ieee (fdiv ieee (Fin 1) (Fin 2)))), Fin 0, Fin 0,
       Fin 0, Fin 0,
       float32 (fmul ieee (fadd ieee (Fin 3) (Fin 1)) (fdiv ieee (Fin 1) (fsub ieee (Fin 1) (Fin 3)))),
       Fin (- 1),
       Fin 0, Fin 0,
       float32 (fmul ieee (fmul ieee (fmul ieee (Fin 2) (Fin 3)) (Fin 1))
                  (fdiv ieee (Fin 1) (fsub ieee (Fin 1) (Fin 3)))),
       Fin 0]"
    by blast
  from P g have b: "perspective ieee (Fin 1) (Fin 1) (Fin 1) (Some PInf) =
      [float32 (fdiv ieee (fdiv ieee (Fin 1) (ftan ieee (fdiv ieee (Fin 1) (Fin 2)))) (Fin 1)),
       Fin 0, Fin 0, Fin 0,
       Fin 0, float32 (fdiv ieee (Fin 1) (ftan ieee (fdiv ieee (Fin 1) (Fin 2)))), Fin 0, Fin 0,
       Fin 0, Fin 0, Fin (- 1), Fin (- 1),
       Fin 0, Fin 0, float32 (fmul ieee (Fin (- 2)) (Fin 1)), Fin 0]"
    by blast
  from P h g have c: "perspective exact (Fin (pi / 2)) (Fin 2) (Fin 1) (Some (Fin 3)) =
        [Fin (1 / tan (pi / 2 / 2) / 2), Fin 0, Fin 0, Fin 0,
         Fin 0, Fin (1 / tan (pi / 2 / 2)), Fin 0, Fin 0,
         Fin 0, Fin 0, Fin ((3 + 1) * (1 / (1 - 3))), Fin (- 1),
         Fin 0, Fin 0, Fin (2 * 3 * 1 * (1 / (1 - 3))), Fin 0]"
    by blast
  from P h g have d: "perspective exact (Fin (pi / 2)) (Fin 2) (Fin 1) (Some PInf) =
        [Fin (1 / tan (pi / 2 / 2) / 2), Fin 0, Fin 0, Fin 0,
         Fin 0, Fin (1 / tan (pi / 2 / 2)), Fin 0, Fin 0,
         Fin 0, Fin 0, Fin (- 1), Fin (- 1),
         Fin 0, Fin 0, Fin (- 2 * 1), Fin 0]"
    by blast
  have a10: "elt (perspective ieee (Fin 1) (Fin 1) (Fin 1) (Some (Fin 3))) 10 = Fin (- 2)"
    and a14: "elt (perspective ieee (Fin 1) (Fin 1) (Fin 1) (Some (Fin 3))) 14 = Fin (- 3)"
    unfolding a using half by (simp_all add: elt_list ieee_ops(3-6) nsub_def ieee_small)
  have b14: "elt (perspective ieee (Fin 1) (Fin 1) (Fin 1) (Some PInf)) 14 = Fin (- 2)"
    unfolding b by (simp add: elt_list ieee_ops(3-6) ieee_small)
  from h g a10 a14 b14 c d t show ?thesis by simp
qed

text \<open>The depth after the homogeneous divide of a point on the axis of the camera.\<close>

lemma depth_finite:
  assumes "0 < fovy" "fovy < pi" "0 < aspect" "far \<noteq> near" "d \<noteq> 0"
  shows "ndc_depth (perspective exact (Fin fovy) (Fin aspect) (Fin near) (Some (Fin far)))
           (Fin 0, Fin 0, Fin (- d), Fin 1) =
         Fin (((far + near) * (1 / (near - far)) * (- d) + 2 * far * near * (1 / (near - far))) / d)"
  unfolding perspective_finite[OF assms(1-4)] using assms(5)
  by (simp add: ndc_depth_def transform_def row_dot_def elt_list)

lemma depth_infinite:
  assumes "0 < fovy" "fovy < pi" "0 < aspect" "fo = None \<or> fo = Some PInf" "d \<noteq> 0"
  shows "ndc_depth (perspective exact (Fin fovy) (Fin aspect) (Fin near) fo)
           (Fin 0, Fin 0, Fin (- d), Fin 1) = Fin ((d - 2 * near) / d)"
  unfolding perspective_infinite[OF assms(1-4)] using assms(5)
  by (simp add: ndc_depth_def transform_def row_dot_def elt_list)

text \<open>
  C4, amended. Over the real numbers, with nothing rounded: for every field of view in
  \<open>(0, \<pi>)\<close>, aspect ratio above 0 and finite planes \<open>0 < near < far\<close>, the matrix of
  \<open>perspective\<close> times the point \<open>(0, 0, -near, 1)\<close>, divided by the fourth component
  of the product, has depth -1, and the point \<open>(0, 0, -far, 1)\<close> has depth 1.
\<close>

theorem perspective_depth_range:
  assumes "0 < fovy" "fovy < pi" "0 < aspect" "0 < near" "near < far"
  shows "ndc_depth (perspective exact (Fin fovy) (Fin aspect) (Fin near) (Some (Fin far)))
           (Fin 0, Fin 0, Fin (- near), Fin 1) = Fin (- 1) \<and>
         ndc_depth (perspective exact (Fin fovy) (Fin aspect) (Fin near) (Some (Fin far)))
           (Fin 0, Fin 0, Fin (- far), Fin 1) = Fin 1"
proof -
  have ne: "far \<noteq> near" "near \<noteq> 0" "far \<noteq> 0" "near - far \<noteq> 0" using assms by simp_all
  define nf where "nf = 1 / (near - far)"
  have nf: "nf * (near - far) = 1" using ne by (simp add: nf_def)
  have "(far + near) * nf * (- near) + 2 * far * near * nf = - near * (nf * (near - far))"
    by (simp add: algebra_simps)
  then have "((far + near) * nf * (- near) + 2 * far * near * nf) / near = - 1"
    using ne nf by simp
  then have 1: "((far + near) * (1 / (near - far)) * (- near) + 2 * far * near * (1 / (near - far))) / near = - 1"
    by (simp only: nf_def)
  have "(far + near) * nf * (- far) + 2 * far * near * nf = far * (nf * (near - far))"
    by (simp add: algebra_simps)
  then have "((far + near) * nf * (- far) + 2 * far * near * nf) / far = 1"
    using ne nf by simp
  then have 2: "((far + near) * (1 / (near - far)) * (- far) + 2 * far * near * (1 / (near - far))) / far = 1"
    by (simp only: nf_def)
  show ?thesis
    using depth_finite[OF assms(1-3) ne(1) ne(2)] depth_finite[OF assms(1-3) ne(1) ne(3)] 1 2
    by simp
qed

theorem perspective_depth_range_witness:
  "(0::real) < pi / 2 \<and> pi / 2 < pi \<and> (0::real) < 2 \<and> (0::real) < 1 \<and> (1::real) < 3 \<and>
   ndc_depth [Fin (1 / 2), Fin 0, Fin 0, Fin 0,
      Fin 0, Fin 1, Fin 0, Fin 0,
      Fin 0, Fin 0, Fin (- 2), Fin (- 1),
      Fin 0, Fin 0, Fin (- 3), Fin 0] (Fin 0, Fin 0, Fin (- 3), Fin 1) = Fin 1"
proof -
  have h: "(0::real) < pi / 2" "pi / 2 < pi" "(0::real) < 2" "(0::real) < 1" "(1::real) < 3"
    by simp_all
  have t: "tan (pi / 4) = 1" by (rule tan_45)
  have ne: "(3::real) \<noteq> 1" by simp
  have p: "perspective exact (Fin (pi / 2)) (Fin 2) (Fin 1) (Some (Fin 3)) =
     [Fin (1 / 2), Fin 0, Fin 0, Fin 0,
      Fin 0, Fin 1, Fin 0, Fin 0,
      Fin 0, Fin 0, Fin (- 2), Fin (- 1),
      Fin 0, Fin 0, Fin (- 3), Fin 0]"
    using perspective_finite[OF h(1-3) ne] by (simp add: t)
  from perspective_depth_range[OF h] show ?thesis
    using h unfolding p by simp
qed

text \<open>
  C4, as first stated, fails on the matrix that the code returns: with near 1 and far 4
  its entries are binary32 values, and the near plane has depth
  \<open>-8388609 / 8388608\<close>, not -1, even when the product and the quotient by the fourth
  component are exact.
\<close>

theorem perspective_depth_counterexample:
  "ndc_depth (perspective ieee (Fin 1) (Fin 1) (Fin 1) (Some (Fin 4)))
      (Fin 0, Fin 0, Fin (- 1), Fin 1) = Fin (- 8388609 / 8388608) \<and>
   ndc_depth (perspective ieee (Fin 1) (Fin 1) (Fin 1) (Some (Fin 4)))
      (Fin 0, Fin 0, Fin (- 1), Fin 1) \<noteq> Fin (- 1)"
  unfolding perspective_ieee_1_4
  by (simp add: ndc_depth_def transform_def row_dot_def elt_list)

text \<open>
  The two depths of the point at distance 100 differ by
  \<open>2 * near * (100 - near) / (100 * (10^9 - near))\<close>.
\<close>

lemma far_gap_bound:
  assumes "0 < near" "near \<le> 1"
  shows "\<bar>((1000000000 + near) * (1 / (near - 1000000000)) * (- 100)
            + 2 * 1000000000 * near * (1 / (near - 1000000000))) / 100
          - (100 - 2 * near) / 100\<bar> < (1 / 10000 :: real)"
proof -
  define D where "D = 1000000000 - near"
  have D: "999999999 \<le> D" using assms by (simp add: D_def)
  then have Dpos: "0 < D" by simp
  have nf: "1 / (near - 1000000000) = - (1 / D)" 
    using Dpos by (simp add: D_def field_simps)
  have "((1000000000 + near) * (1 / (near - 1000000000)) * (- 100)
            + 2 * 1000000000 * near * (1 / (near - 1000000000))) / 100
          - (100 - 2 * near) / 100
        = ((1000000000 + near) * 100 - 2000000000 * near - (100 - 2 * near) * D) / (100 * D)"
    unfolding nf using Dpos by (simp add: field_simps)
  also have "(1000000000 + near) * 100 - 2000000000 * near - (100 - 2 * near) * D
        = 2 * near * (100 - near)"
    by (simp add: D_def algebra_simps)
  finally have eq: "((1000000000 + near) * (1 / (near - 1000000000)) * (- 100)
            + 2 * 1000000000 * near * (1 / (near - 1000000000))) / 100
          - (100 - 2 * near) / 100 = 2 * near * (100 - near) / (100 * D)" .
  have n0: "0 \<le> 2 * near * (100 - near)" using assms by simp
  have "near * (100 - near) \<le> 1 * 100"
    using assms by (intro mult_mono) simp_all
  then have n1: "2 * near * (100 - near) \<le> 200" by simp
  have "2 * near * (100 - near) / (100 * D) \<le> 200 / (100 * D)"
    by (rule divide_right_mono) (use n1 Dpos in simp_all)
  also have "\<dots> = 2 / D" using Dpos by simp
  also have "\<dots> \<le> 2 / 999999999" by (rule divide_left_mono) (use D in simp_all)
  also have "\<dots> < 1 / 10000" by simp
  finally have up: "2 * near * (100 - near) / (100 * D) < 1 / 10000" .
  have lo: "0 \<le> 2 * near * (100 - near) / (100 * D)" using n0 Dpos by simp
  show ?thesis unfolding eq using up lo by simp
qed

text \<open>
  C8. Over the real numbers: for every near plane in \<open>(0, 1]\<close>, field of view in \<open>(0, \<pi>)\<close> and aspect ratio
  above 0, the point \<open>(0, 0, -100, 1)\<close> has a finite depth under the far plane
  \<open>10^9\<close> and a finite depth under the infinite far plane, and the two differ by less
  than \<open>10^-4\<close>.
\<close>

theorem perspective_far_limit:
  assumes "0 < fovy" "fovy < pi" "0 < aspect" "0 < near" "near \<le> 1"
  shows "\<exists>d1 d2.
     ndc_depth (perspective exact (Fin fovy) (Fin aspect) (Fin near) (Some (Fin 1000000000)))
        (Fin 0, Fin 0, Fin (- 100), Fin 1) = Fin d1 \<and>
     ndc_depth (perspective exact (Fin fovy) (Fin aspect) (Fin near) (Some PInf))
        (Fin 0, Fin 0, Fin (- 100), Fin 1) = Fin d2 \<and>
     \<bar>d1 - d2\<bar> < 1 / 10000"
proof -
  have ne: "(1000000000::real) \<noteq> near" "(100::real) \<noteq> 0" using assms by simp_all
  have inf: "Some PInf = None \<or> Some PInf = Some PInf" by simp
  show ?thesis
    using depth_finite[OF assms(1-3) ne] depth_infinite[OF assms(1-3) inf ne(2), of near]
      far_gap_bound[OF assms(4,5)]
    by blast
qed

theorem perspective_far_limit_witness:
  "(0::real) < pi / 2 \<and> pi / 2 < pi \<and> (0::real) < 2 \<and> (0::real) < 1 \<and> (1::real) \<le> 1 \<and>
   ndc_depth (perspective exact (Fin (pi / 2)) (Fin 2) (Fin 1) (Some PInf))
        (Fin 0, Fin 0, Fin (- 100), Fin 1) = Fin (49 / 50) \<and>
   (\<exists>d1. ndc_depth (perspective exact (Fin (pi / 2)) (Fin 2) (Fin 1) (Some (Fin 1000000000)))
        (Fin 0, Fin 0, Fin (- 100), Fin 1) = Fin d1 \<and> \<bar>d1 - 49 / 50\<bar> < 1 / 10000)"
proof -
  have h: "(0::real) < pi / 2" "pi / 2 < pi" "(0::real) < 2" "(0::real) < 1" "(1::real) \<le> 1"
    by simp_all
  have inf: "Some PInf = None \<or> Some PInf = Some PInf" by simp
  have d2: "ndc_depth (perspective exact (Fin (pi / 2)) (Fin 2) (Fin 1) (Some PInf))
        (Fin 0, Fin 0, Fin (- 100), Fin 1) = Fin (49 / 50)"
    using depth_infinite[OF h(1-3) inf, of 100 1] by simp
  from perspective_far_limit[OF h] obtain d1 d2 where
    a: "ndc_depth (perspective exact (Fin (pi / 2)) (Fin 2) (Fin 1) (Some (Fin 1000000000)))
        (Fin 0, Fin 0, Fin (- 100), Fin 1) = Fin d1" and
    b: "ndc_depth (perspective exact (Fin (pi / 2)) (Fin 2) (Fin 1) (Some PInf))
        (Fin 0, Fin 0, Fin (- 100), Fin 1) = Fin d2" and
    c: "\<bar>d1 - d2\<bar> < 1 / 10000"
    by blast
  from b d2 have "d2 = 49 / 50" by simp
  with c have "\<bar>d1 - 49 / 50\<bar> < 1 / 10000" by simp
  with a have "\<exists>d1. ndc_depth (perspective exact (Fin (pi / 2)) (Fin 2) (Fin 1) (Some (Fin 1000000000)))
        (Fin 0, Fin 0, Fin (- 100), Fin 1) = Fin d1 \<and> \<bar>d1 - 49 / 50\<bar> < 1 / 10000"
    by blast
  with h d2 show ?thesis by blast
qed

section \<open>Rotation\<close>

text \<open>
  NaN is absorbing on either side, the Euclidean length of a non-zero real vector is
  not zero, and over the real numbers, on sixteen finite entries, a finite angle and a
  non-zero finite axis, \<open>rotate\<close> is real arithmetic.
\<close>

lemma nmul_NaN_right: "nmul a NaN = NaN"
  by (cases a) simp_all

lemma nadd_NaN_right: "nadd a NaN = NaN"
  by (cases a) simp_all

lemma hypot_nonzero:
  assumes "(ax, ay, az) \<noteq> (0, 0, 0 :: real)"
  shows "sqrt (ax * ax + ay * ay + az * az) \<noteq> 0"
proof -
  have "ax * ax + ay * ay + az * az \<noteq> 0"
    using assms by (auto simp add: add_nonneg_eq_0_iff)
  then show ?thesis by simp
qed

lemma rotate_finite:
  assumes "length mr = 16" "(ax, ay, az) \<noteq> (0, 0, 0)"
  shows "rotate_mat4 exact (map Fin mr) (Fin \<theta>) (Fin ax, Fin ay, Fin az) =
    (let h = sqrt (ax * ax + ay * ay + az * az);
         x = ax * (1 / h); y = ay * (1 / h); z = az * (1 / h);
         s = sin \<theta>; c = cos \<theta>; t = 1 - c;
         b00 = x * x * t + c; b01 = y * x * t + z * s; b02 = z * x * t - y * s;
         b10 = x * y * t - z * s; b11 = y * y * t + c; b12 = z * y * t + x * s;
         b20 = x * z * t + y * s; b21 = y * z * t - x * s; b22 = z * z * t + c
     in map Fin
      [mr ! 0 * b00 + mr ! 4 * b01 + mr ! 8 * b02,
       mr ! 1 * b00 + mr ! 5 * b01 + mr ! 9 * b02,
       mr ! 2 * b00 + mr ! 6 * b01 + mr ! 10 * b02,
       mr ! 3 * b00 + mr ! 7 * b01 + mr ! 11 * b02,
       mr ! 0 * b10 + mr ! 4 * b11 + mr ! 8 * b12,
       mr ! 1 * b10 + mr ! 5 * b11 + mr ! 9 * b12,
       mr ! 2 * b10 + mr ! 6 * b11 + mr ! 10 * b12,
       mr ! 3 * b10 + mr ! 7 * b11 + mr ! 11 * b12,
       mr ! 0 * b20 + mr ! 4 * b21 + mr ! 8 * b22,
       mr ! 1 * b20 + mr ! 5 * b21 + mr ! 9 * b22,
       mr ! 2 * b20 + mr ! 6 * b21 + mr ! 10 * b22,
       mr ! 3 * b20 + mr ! 7 * b21 + mr ! 11 * b22,
       mr ! 12, mr ! 13, mr ! 14, mr ! 15])"
proof -
  have len: "ndiv (Fin 1) (Math_hypot (Fin ax) (Fin ay) (Fin az)) =
      Fin (1 / sqrt (ax * ax + ay * ay + az * az))"
    using hypot_nonzero[OF assms(2)] by simp
  show ?thesis
    unfolding rotate_mat4_def prod.case exact_ops len Let_def
    using assms(1) by (simp add: elt_map_Fin nsub_def)
qed


lemma sum_below_3: "(\<Sum>k<3. f k) = f 0 + f (Suc 0) + f (2::nat)"
  by (simp add: numeral_3_eq_3 numeral_2_eq_2)

lemma rodrigues_entries:
  "rodrigues \<theta> (x, y, z) 0 0 = x * x * (1 - cos \<theta>) + cos \<theta>"
  "rodrigues \<theta> (x, y, z) (Suc 0) 0 = y * x * (1 - cos \<theta>) + z * sin \<theta>"
  "rodrigues \<theta> (x, y, z) 2 0 = z * x * (1 - cos \<theta>) - y * sin \<theta>"
  "rodrigues \<theta> (x, y, z) 0 (Suc 0) = x * y * (1 - cos \<theta>) - z * sin \<theta>"
  "rodrigues \<theta> (x, y, z) (Suc 0) (Suc 0) = y * y * (1 - cos \<theta>) + cos \<theta>"
  "rodrigues \<theta> (x, y, z) 2 (Suc 0) = z * y * (1 - cos \<theta>) + x * sin \<theta>"
  "rodrigues \<theta> (x, y, z) 0 2 = x * z * (1 - cos \<theta>) + y * sin \<theta>"
  "rodrigues \<theta> (x, y, z) (Suc 0) 2 = y * z * (1 - cos \<theta>) - x * sin \<theta>"
  "rodrigues \<theta> (x, y, z) 2 2 = z * z * (1 - cos \<theta>) + cos \<theta>"
  by (simp_all add: rodrigues_def cross_matrix_def component_def)

lemma rotate_exact_block:
  assumes "length mr = 16" "(ax, ay, az) \<noteq> (0, 0, 0)"
  shows "\<forall>i<4. \<forall>j<3.
            elt (rotate_mat4 exact (map Fin mr) (Fin \<theta>) (Fin ax, Fin ay, Fin az)) (4 * j + i) =
            Fin (\<Sum>k<3. mr ! (4 * k + i) * rodrigues \<theta> (normalized (ax, ay, az)) k j)"
proof (intro allI impI)
  fix i j :: nat assume ij: "i < 4" "j < 3"
  define h where "h = sqrt (ax * ax + ay * ay + az * az)"
  define x where "x = ax * (1 / h)"
  define y where "y = ay * (1 / h)"
  define z where "z = az * (1 / h)"
  have n: "normalized (ax, ay, az) = (x, y, z)"
    by (simp add: normalized_def x_def y_def z_def h_def)
  have r: "rotate_mat4 exact (map Fin mr) (Fin \<theta>) (Fin ax, Fin ay, Fin az) =
      [Fin (mr ! 0 * rodrigues \<theta> (x, y, z) 0 0 + mr ! 4 * rodrigues \<theta> (x, y, z) (Suc 0) 0
            + mr ! 8 * rodrigues \<theta> (x, y, z) 2 0),
       Fin (mr ! 1 * rodrigues \<theta> (x, y, z) 0 0 + mr ! 5 * rodrigues \<theta> (x, y, z) (Suc 0) 0
            + mr ! 9 * rodrigues \<theta> (x, y, z) 2 0),
       Fin (mr ! 2 * rodrigues \<theta> (x, y, z) 0 0 + mr ! 6 * rodrigues \<theta> (x, y, z) (Suc 0) 0
            + mr ! 10 * rodrigues \<theta> (x, y, z) 2 0),
       Fin (mr ! 3 * rodrigues \<theta> (x, y, z) 0 0 + mr ! 7 * rodrigues \<theta> (x, y, z) (Suc 0) 0
            + mr ! 11 * rodrigues \<theta> (x, y, z) 2 0),
       Fin (mr ! 0 * rodrigues \<theta> (x, y, z) 0 (Suc 0) + mr ! 4 * rodrigues \<theta> (x, y, z) (Suc 0) (Suc 0)
            + mr ! 8 * rodrigues \<theta> (x, y, z) 2 (Suc 0)),
       Fin (mr ! 1 * rodrigues \<theta> (x, y, z) 0 (Suc 0) + mr ! 5 * rodrigues \<theta> (x, y, z) (Suc 0) (Suc 0)
            + mr ! 9 * rodrigues \<theta> (x, y, z) 2 (Suc 0)),
       Fin (mr ! 2 * rodrigues \<theta> (x, y, z) 0 (Suc 0) + mr ! 6 * rodrigues \<theta> (x, y, z) (Suc 0) (Suc 0)
            + mr ! 10 * rodrigues \<theta> (x, y, z) 2 (Suc 0)),
       Fin (mr ! 3 * rodrigues \<theta> (x, y, z) 0 (Suc 0) + mr ! 7 * rodrigues \<theta> (x, y, z) (Suc 0) (Suc 0)
            + mr ! 11 * rodrigues \<theta> (x, y, z) 2 (Suc 0)),
       Fin (mr ! 0 * rodrigues \<theta> (x, y, z) 0 2 + mr ! 4 * rodrigues \<theta> (x, y, z) (Suc 0) 2
            + mr ! 8 * rodrigues \<theta> (x, y, z) 2 2),
       Fin (mr ! 1 * rodrigues \<theta> (x, y, z) 0 2 + mr ! 5 * rodrigues \<theta> (x, y, z) (Suc 0) 2
            + mr ! 9 * rodrigues \<theta> (x, y, z) 2 2),
       Fin (mr ! 2 * rodrigues \<theta> (x, y, z) 0 2 + mr ! 6 * rodrigues \<theta> (x, y, z) (Suc 0) 2
            + mr ! 10 * rodrigues \<theta> (x, y, z) 2 2),
       Fin (mr ! 3 * rodrigues \<theta> (x, y, z) 0 2 + mr ! 7 * rodrigues \<theta> (x, y, z) (Suc 0) 2
            + mr ! 11 * rodrigues \<theta> (x, y, z) 2 2),
       Fin (mr ! 12), Fin (mr ! 13), Fin (mr ! 14), Fin (mr ! 15)]"
    unfolding rotate_finite[OF assms] rodrigues_entries Let_def x_def y_def z_def h_def
    by simp
  from less_4_cases[OF ij(1)] less_3_cases[OF ij(2)]
  show "elt (rotate_mat4 exact (map Fin mr) (Fin \<theta>) (Fin ax, Fin ay, Fin az)) (4 * j + i) =
            Fin (\<Sum>k<3. mr ! (4 * k + i) * rodrigues \<theta> (normalized (ax, ay, az)) k j)"
    unfolding r n sum_below_3
    by (elim disjE) (simp_all add: elt_list numeral_2_eq_2[symmetric])
qed

text \<open>Elements 12 to 15 are read from the input and stored.\<close>

lemma rotate_passthrough:
  assumes "i \<in> {12, 13, 14, 15}"
  shows "elt (rotate_mat4 exact m rad axis) i = elt m i"
    and "elt (rotate_mat4 ieee m rad axis) i = float32 (elt m i)"
  using assms
  by (cases axis; auto simp add: rotate_mat4_def exact_ops(11) ieee_ops(11) Let_def elt_list)+

lemma rotate_length: "length (rotate_mat4 A m rad axis) = 16"
  by (cases axis) (simp add: rotate_mat4_def Float32Array_def Let_def)

text \<open>
  The reciprocal of the length of a very short axis overflows: the first component of
  the normalised axis is infinite and the others are NaN.
\<close>

lemma hypot_axis: "0 \<le> a \<Longrightarrow> Math_hypot (Fin a) (Fin 0) (Fin 0) = Fin a"
  by simp

lemma tiny_axis_overflow:
  "fdiv ieee (Fin 1) (fhypot ieee (Fin (1 / 2 ^ 1040)) (Fin 0) (Fin 0)) = PInf"
proof -
  define a :: real where "a = 1 / 2 ^ 1040"
  have a0: "0 < a" by (simp add: a_def)
  have ap: "a = of_int 1 * 2 powr of_int (- 1040)" by (simp add: a_def two_powr_neg)
  have "(2::real) powr of_int (- 1040) < 2 powr of_int 1024"
    by (rule powr_less_mono) simp_all
  then have lt: "\<bar>a\<bar> < 2 powr of_int 1024" using a0 by (simp add: ap)
  have r: "round_to 53 (- 1074) 1024 a = Fin a"
    by (rule round_to_exact[OF ap _ _ lt]) simp_all
  have "1 / a = 2 powr of_int 1040" by (simp add: a_def)
  moreover have "(2::real) powr of_int 1024 \<le> 2 powr of_int 1040" by simp
  ultimately have big: "2 powr of_int 1024 \<le> \<bar>1 / a\<bar>" by simp
  have o: "round_to 53 (- 1074) 1024 (1 / a) = inf_of (0 < 1 / a)"
    by (rule round_to_overflow[OF big]) simp_all
  have "fdiv ieee (Fin 1) (fhypot ieee (Fin a) (Fin 0) (Fin 0)) = PInf"
    unfolding ieee_ops hypot_axis[OF less_imp_le[OF a0]] binary64.simps r
    using a0 o by (simp add: inf_of_def)
  then show ?thesis by (simp only: a_def)
qed

text \<open>
  For the axis \<open>(2^-1040, 0, 0)\<close> the first twelve elements of the result are NaN,
  whatever the matrix and the angle.
\<close>

lemma rotate_tiny_axis:
  "rotate_mat4 ieee m rad (Fin (1 / 2 ^ 1040), Fin 0, Fin 0) =
     [NaN, NaN, NaN, NaN, NaN, NaN, NaN, NaN, NaN, NaN, NaN, NaN,
      float32 (elt m 12), float32 (elt m 13), float32 (elt m 14), float32 (elt m 15)]"
proof -
  have y: "fmul ieee (Fin 0) PInf = NaN" by (simp add: ieee_ops)
  have n: "fmul ieee NaN b = NaN" "fmul ieee b NaN = NaN" "fadd ieee NaN b = NaN"
    "fadd ieee b NaN = NaN" "fsub ieee NaN b = NaN" for b
    by (simp_all add: ieee_ops nsub_def nmul_NaN_right nadd_NaN_right)
  show ?thesis
    unfolding rotate_mat4_def prod.case tiny_axis_overflow Let_def y n ieee_ops(11)
    by simp
qed

text \<open>
  C6, as first stated, fails for a non-zero axis so short that the reciprocal of its
  length overflows: element 0 of the identity rotated by the angle 0 about
  \<open>(2^-1040, 0, 0)\<close> is NaN, not the entry of the product with the Rodrigues matrix.
\<close>

theorem rotate_overflow_counterexample:
  "((1 / 2 ^ 1040 :: real), (0 :: real), (0 :: real)) \<noteq> (0, 0, 0) \<and>
   elt (rotate_mat4 ieee (create ieee) (Fin 0) (Fin (1 / 2 ^ 1040), Fin 0, Fin 0)) 0 = NaN \<and>
   elt (rotate_mat4 ieee (create ieee) (Fin 0) (Fin (1 / 2 ^ 1040), Fin 0, Fin 0)) 0 \<noteq>
     Fin (1 * rodrigues 0 (normalized (1 / 2 ^ 1040, 0, 0)) 0 0
          + 0 * rodrigues 0 (normalized (1 / 2 ^ 1040, 0, 0)) 1 0
          + 0 * rodrigues 0 (normalized (1 / 2 ^ 1040, 0, 0)) 2 0)"
  unfolding rotate_tiny_axis by (simp add: elt_list)

text \<open>
  C6, amended. For every matrix, angle and axis, the result of \<open>rotate\<close> has sixteen
  elements and its elements 12 to 15 are the binary32 conversions of those of the
  input, hence the same numbers when the input is a \<open>Float32Array\<close>. Over the real
  numbers, with nothing rounded, for every matrix of sixteen real entries, every real
  angle and every non-zero real axis, the element in row \<open>i\<close> and column \<open>j\<close> of the
  first three columns of the result is the element in row \<open>i\<close> and column \<open>j\<close> of the
  product of the first three columns of the input with the Rodrigues matrix of the
  normalised axis, and elements 12 to 15 are those of the input.
\<close>

theorem rotate_rodrigues:
  assumes "length mr = 16" "(ax, ay, az) \<noteq> (0, 0, 0)"
  shows "(\<forall>i<4. \<forall>j<3.
            elt (rotate_mat4 exact (map Fin mr) (Fin \<theta>) (Fin ax, Fin ay, Fin az)) (4 * j + i) =
            Fin (\<Sum>k<3. mr ! (4 * k + i) * rodrigues \<theta> (normalized (ax, ay, az)) k j)) \<and>
         (\<forall>i\<in>{12, 13, 14, 15}. elt (rotate_mat4 exact m rad axis) i = elt m i) \<and>
         (\<forall>i\<in>{12, 13, 14, 15}. elt (rotate_mat4 ieee m rad axis) i = float32 (elt m i)) \<and>
         ((\<forall>i\<in>{12, 13, 14, 15}. float32 (elt m i) = elt m i) \<longrightarrow>
            (\<forall>i\<in>{12, 13, 14, 15}. elt (rotate_mat4 ieee m rad axis) i = elt m i)) \<and>
         length (rotate_mat4 exact m rad axis) = 16 \<and>
         length (rotate_mat4 ieee m rad axis) = 16"
proof -
  note a = rotate_exact_block[OF assms, of \<theta>]
  have b: "\<forall>i\<in>{12, 13, 14, 15}. elt (rotate_mat4 exact m rad axis) i = elt m i"
    using rotate_passthrough(1) by blast
  have c: "\<forall>i\<in>{12, 13, 14, 15}. elt (rotate_mat4 ieee m rad axis) i = float32 (elt m i)"
    using rotate_passthrough(2) by blast
  then have d: "(\<forall>i\<in>{12, 13, 14, 15}. float32 (elt m i) = elt m i) \<longrightarrow>
            (\<forall>i\<in>{12, 13, 14, 15}. elt (rotate_mat4 ieee m rad axis) i = elt m i)"
    by simp
  from a b c d rotate_length[of exact m rad axis] rotate_length[of ieee m rad axis]
  show ?thesis by blast
qed

theorem rotate_rodrigues_witness:
  "length [1, 0, 0, 0, 0, 1, 0, 0, 0, 0, 1, 0, 0, 0, 0, 1 :: real] = 16 \<and>
   (0, 0, 1) \<noteq> (0, 0, 0 :: real) \<and> (1::nat) < 4 \<and> (0::nat) < 3 \<and>
   (15::nat) \<in> {12, 13, 14, 15} \<and>
   float32 (elt (create ieee) 15) = elt (create ieee) 15 \<and>
   elt (rotate_mat4 exact (create exact) (Fin (pi / 2)) (Fin 0, Fin 0, Fin 1)) 1 = Fin 1 \<and>
   elt (rotate_mat4 ieee (create ieee) (Fin 1) (Fin 0, Fin 0, Fin 1)) 15 = Fin 1"
proof -
  let ?mr = "[1, 0, 0, 0, 0, 1, 0, 0, 0, 0, 1, 0, 0, 0, 0, 1 :: real]"
  have c: "create exact = map Fin ?mr" by (simp add: create_values)
  have len: "length ?mr = 16" by simp
  have ne: "(0, 0, 1) \<noteq> (0, 0, 0 :: real)" by simp
  have f: "\<forall>i\<in>{12, 13, 14, 15}. float32 (elt (create ieee) i) = elt (create ieee) i"
    by (simp add: create_values elt_list ieee_small)
  note R = rotate_rodrigues[OF len ne, of "pi / 2" "create ieee" "Fin 1" "(Fin 0, Fin 0, Fin 1)"]
  from R have "\<forall>i<4. \<forall>j<3.
          elt (rotate_mat4 exact (map Fin ?mr) (Fin (pi / 2)) (Fin 0, Fin 0, Fin 1)) (4 * j + i) =
          Fin (\<Sum>k<3. ?mr ! (4 * k + i) * rodrigues (pi / 2) (normalized (0, 0, 1)) k j)"
    by (rule conjunct1)
  moreover have ij: "(1::nat) < 4" "(0::nat) < 3" by simp_all
  ultimately have "elt (rotate_mat4 exact (map Fin ?mr) (Fin (pi / 2)) (Fin 0, Fin 0, Fin 1)) (4 * 0 + 1) =
          Fin (\<Sum>k<3. ?mr ! (4 * k + 1) * rodrigues (pi / 2) (normalized (0, 0, 1)) k 0)"
    by blast
  then have e: "elt (rotate_mat4 exact (create exact) (Fin (pi / 2)) (Fin 0, Fin 0, Fin 1)) 1 = Fin 1"
    unfolding c sum_below_3
    by (simp add: rodrigues_def normalized_def cross_matrix_def component_def)
  from R f have "\<forall>i\<in>{12, 13, 14, 15}.
      elt (rotate_mat4 ieee (create ieee) (Fin 1) (Fin 0, Fin 0, Fin 1)) i = elt (create ieee) i"
    by blast
  then have "elt (rotate_mat4 ieee (create ieee) (Fin 1) (Fin 0, Fin 0, Fin 1)) 15 =
      elt (create ieee) 15"
    by simp
  then have g: "elt (rotate_mat4 ieee (create ieee) (Fin 1) (Fin 0, Fin 0, Fin 1)) 15 = Fin 1"
    by (simp add: create_values elt_list)
  have m: "(15::nat) \<in> {12, 13, 14, 15}" by simp
  have "float32 (elt (create ieee) 15) = elt (create ieee) 15" using f by simp
  with len ne ij m e g show ?thesis by blast
qed

text \<open>
  C7. Over the real numbers: rotating the identity translated by \<open>(5, 0, 0)\<close> by the angle \<open>\<pi> / 2\<close> about
  \<open>(0, 0, 1)\<close> gives the translation column \<open>(5, 0, 0)\<close>; translating by
  \<open>(5, 0, 0)\<close> the identity rotated by the same angle about the same axis gives
  \<open>(0, 5, 0)\<close>. The two columns differ and so do the two matrices: rotation and
  translation do not commute.
\<close>

theorem rotate_translate_order:
  "(let A = rotate_mat4 exact (translate exact (create exact) (Fin 5, Fin 0, Fin 0)) (Fin (pi / 2)) (Fin 0, Fin 0, Fin 1);
        B = translate exact (rotate_mat4 exact (create exact) (Fin (pi / 2)) (Fin 0, Fin 0, Fin 1)) (Fin 5, Fin 0, Fin 0)
    in (elt A 12, elt A 13, elt A 14) = (Fin 5, Fin 0, Fin 0) \<and>
       (elt B 12, elt B 13, elt B 14) = (Fin 0, Fin 5, Fin 0) \<and>
       (elt A 12, elt A 13, elt A 14) \<noteq> (elt B 12, elt B 13, elt B 14) \<and>
       A \<noteq> B)"
proof -
  have t: "translate exact (create exact) (Fin 5, Fin 0, Fin 0) =
      map Fin [1, 0, 0, 0, 0, 1, 0, 0, 0, 0, 1, 0, 5, 0, 0, 1]"
    by (simp add: create_values translate_def exact_ops Let_def elt_list)
  have r: "rotate_mat4 exact (create exact) (Fin (pi / 2)) (Fin 0, Fin 0, Fin 1) =
      map Fin [0, 1, 0, 0, - 1, 0, 0, 0, 0, 0, 1, 0, 0, 0, 0, 1]"
    by (simp add: create_values rotate_mat4_def exact_ops Let_def nsub_def elt_list)
  have A: "rotate_mat4 exact (translate exact (create exact) (Fin 5, Fin 0, Fin 0)) (Fin (pi / 2)) (Fin 0, Fin 0, Fin 1) =
      map Fin [0, 1, 0, 0, - 1, 0, 0, 0, 0, 0, 1, 0, 5, 0, 0, 1]"
    unfolding t by (simp add: rotate_mat4_def exact_ops Let_def nsub_def elt_list)
  have B: "translate exact (rotate_mat4 exact (create exact) (Fin (pi / 2)) (Fin 0, Fin 0, Fin 1)) (Fin 5, Fin 0, Fin 0) =
      map Fin [0, 1, 0, 0, - 1, 0, 0, 0, 0, 0, 1, 0, 0, 5, 0, 1]"
    unfolding r by (simp add: translate_def exact_ops Let_def elt_list)
  show ?thesis unfolding Let_def A B by (simp add: elt_list)
qed

section \<open>Invalid inputs\<close>

text \<open>
  Numbers that are not finite pass through both roundings, and a quotient by zero or
  of an infinity is never finite.
\<close>

lemma nonfinite_fixed:
  assumes "\<not> finite_num x"
  shows "binary64 x = x" and "float32 x = x"
  using assms by (cases x; simp)+

lemma ndiv_zero_nonfinite: "\<not> finite_num (ndiv a (Fin 0))"
  by (cases a) (simp_all add: inf_of_def)

lemma ndiv_PInf_nonfinite: "\<not> finite_num (ndiv PInf b)"
  by (cases b) (simp_all add: inf_of_def)

lemma perspective_ieee_focal:
  "elt (perspective ieee fovy aspect near far) 0 =
     float32 (fdiv ieee (fdiv ieee (Fin 1) (ftan ieee (fdiv ieee fovy (Fin 2)))) aspect)"
  "elt (perspective ieee fovy aspect near far) 5 =
     float32 (fdiv ieee (Fin 1) (ftan ieee (fdiv ieee fovy (Fin 2))))"
  "length (perspective ieee fovy aspect near far) = 16"
proof -
  consider "far = None \<or> far = Some PInf" | fr where "far = Some fr" "fr \<noteq> PInf"
    by (cases far) auto
  then have "elt (perspective ieee fovy aspect near far) 0 =
     float32 (fdiv ieee (fdiv ieee (Fin 1) (ftan ieee (fdiv ieee fovy (Fin 2)))) aspect) \<and>
    elt (perspective ieee fovy aspect near far) 5 =
     float32 (fdiv ieee (Fin 1) (ftan ieee (fdiv ieee fovy (Fin 2)))) \<and>
    length (perspective ieee fovy aspect near far) = 16"
  proof cases
    case 1
    show ?thesis unfolding perspective_ieee_infinite_far[OF 1] by (simp add: elt_list)
  next
    case 2
    show ?thesis unfolding 2(1) perspective_ieee_finite_far[OF 2(2)] by (simp add: elt_list)
  qed
  then show "elt (perspective ieee fovy aspect near far) 0 =
     float32 (fdiv ieee (fdiv ieee (Fin 1) (ftan ieee (fdiv ieee fovy (Fin 2)))) aspect)"
    "elt (perspective ieee fovy aspect near far) 5 =
     float32 (fdiv ieee (Fin 1) (ftan ieee (fdiv ieee fovy (Fin 2))))"
    "length (perspective ieee fovy aspect near far) = 16"
    by simp_all
qed

lemma zero_fov_focal: "fdiv ieee (Fin 1) (ftan ieee (fdiv ieee (Fin 0) (Fin 2))) = PInf"
  by (simp add: ieee_ops Math_tan_def ieee_small inf_of_def)

lemma perspective_zero_fov:
  "elt (perspective ieee (Fin 0) aspect near far) 5 = PInf"
  "\<not> finite_num (elt (perspective ieee (Fin 0) aspect near far) 0)"
proof -
  show "elt (perspective ieee (Fin 0) aspect near far) 5 = PInf"
    unfolding perspective_ieee_focal zero_fov_focal by simp
  have "\<not> finite_num (fdiv ieee PInf aspect)"
    unfolding ieee_ops using nonfinite_fixed(1)[OF ndiv_PInf_nonfinite] ndiv_PInf_nonfinite
    by simp
  then show "\<not> finite_num (elt (perspective ieee (Fin 0) aspect near far) 0)"
    unfolding perspective_ieee_focal zero_fov_focal using nonfinite_fixed(2) by simp
qed

lemma perspective_zero_aspect:
  "\<not> finite_num (elt (perspective ieee fovy (Fin 0) near far) 0)"
proof -
  have "\<not> finite_num (fdiv ieee f (Fin 0))" for f
    unfolding ieee_ops using nonfinite_fixed(1)[OF ndiv_zero_nonfinite] ndiv_zero_nonfinite
    by simp
  then show ?thesis
    unfolding perspective_ieee_focal using nonfinite_fixed(2) by simp
qed

text \<open>A product with zero is zero or NaN, and stays so under further products.\<close>

lemma fmul_zero_right: "fmul ieee a (Fin 0) = Fin 0 \<or> fmul ieee a (Fin 0) = NaN"
  by (cases a) (simp_all add: ieee_ops ieee_small)

lemma fmul_zero_left:
  assumes "z = Fin 0 \<or> z = NaN"
  shows "fmul ieee z b = Fin 0 \<or> fmul ieee z b = NaN"
  using assms by (cases b) (auto simp add: ieee_ops ieee_small)

lemma float32_zero:
  assumes "z = Fin 0 \<or> z = NaN"
  shows "float32 z = Fin 0 \<or> float32 z = NaN"
  using assms by (auto simp add: ieee_small)

lemma perspective_zero_near_column:
  "elt (perspective ieee fovy aspect (Fin 0) far) 12 = Fin 0"
  "elt (perspective ieee fovy aspect (Fin 0) far) 13 = Fin 0"
  "elt (perspective ieee fovy aspect (Fin 0) far) 15 = Fin 0"
  "elt (perspective ieee fovy aspect (Fin 0) far) 14 = Fin 0 \<or>
   elt (perspective ieee fovy aspect (Fin 0) far) 14 = NaN"
proof -
  consider "far = None \<or> far = Some PInf" | fr where "far = Some fr" "fr \<noteq> PInf"
    by (cases far) auto
  then have "elt (perspective ieee fovy aspect (Fin 0) far) 12 = Fin 0 \<and>
    elt (perspective ieee fovy aspect (Fin 0) far) 13 = Fin 0 \<and>
    elt (perspective ieee fovy aspect (Fin 0) far) 15 = Fin 0 \<and>
    (elt (perspective ieee fovy aspect (Fin 0) far) 14 = Fin 0 \<or>
     elt (perspective ieee fovy aspect (Fin 0) far) 14 = NaN)"
  proof cases
    case 1
    show ?thesis
      unfolding perspective_ieee_infinite_far[OF 1]
      using float32_zero[OF fmul_zero_right[of "Fin (- 2)"]] by (simp add: elt_list)
  next
    case 2
    show ?thesis
      unfolding 2(1) perspective_ieee_finite_far[OF 2(2)]
      using float32_zero[OF fmul_zero_left[OF fmul_zero_right[of "fmul ieee (Fin 2) fr"],
            of "fdiv ieee (Fin 1) (fsub ieee (Fin 0) fr)"]]
      by (simp add: elt_list)
  qed
  then show "elt (perspective ieee fovy aspect (Fin 0) far) 12 = Fin 0"
    "elt (perspective ieee fovy aspect (Fin 0) far) 13 = Fin 0"
    "elt (perspective ieee fovy aspect (Fin 0) far) 15 = Fin 0"
    "elt (perspective ieee fovy aspect (Fin 0) far) 14 = Fin 0 \<or>
     elt (perspective ieee fovy aspect (Fin 0) far) 14 = NaN"
    by simp_all
qed

text \<open>A matrix with an entry that is not finite, or with a zero last column, is degenerate.\<close>

lemma degenerate_nonfinite:
  assumes "i < length m" "\<not> finite_num (elt m i)"
  shows "degenerate m"
proof -
  have "m ! i \<in> set m" using assms(1) by simp
  moreover have "\<not> finite_num (m ! i)" using assms by (simp add: elt_def)
  ultimately have "\<not> list_all finite_num m" by (auto simp add: list_all_iff)
  then show ?thesis by (simp add: degenerate_def)
qed

lemma singular_last_column:
  assumes "a ! 12 = 0" "a ! 13 = 0" "a ! 14 = 0" "a ! 15 = 0"
  shows "\<not> invertible4 a"
proof
  assume "invertible4 a"
  then obtain b where "mat_mul b a = identity4" by (auto simp add: invertible4_def)
  then have "mat_mul b a ! 15 = identity4 ! 15" by simp
  then show False using assms by (simp add: mat_mul_def identity4_def cell_def)
qed

lemma perspective_zero_near: "degenerate (perspective ieee fovy aspect (Fin 0) far)"
proof -
  let ?M = "perspective ieee fovy aspect (Fin 0) far"
  note c = perspective_zero_near_column[of fovy aspect far]
  have len: "length ?M = 16" by (rule perspective_ieee_focal(3))
  from c(4) show ?thesis
  proof
    assume "elt ?M 14 = NaN"
    then have "\<not> finite_num (elt ?M 14)" by simp
    then show ?thesis using degenerate_nonfinite[of 14 ?M] len by simp
  next
    assume z: "elt ?M 14 = Fin 0"
    have "map real_of ?M ! 12 = 0" "map real_of ?M ! 13 = 0" "map real_of ?M ! 14 = 0"
      "map real_of ?M ! 15 = 0"
      using c(1-3) z len by (simp_all add: elt_def)
    then have "\<not> invertible4 (map real_of ?M)" by (rule singular_last_column)
    then show ?thesis by (simp add: degenerate_def)
  qed
qed

text \<open>
  With a field of view of 2 the focal factor is a binary64 number between 1/2 and 1,
  because \<open>tan 1\<close> lies between 1 and 2; its quotient by 1 or -1 and the binary32
  conversions stay between 1/2 and 1 in magnitude.
\<close>

lemma tan_one_bounds: "1 \<le> tan (1::real)" "tan (1::real) \<le> 2" "cos (1::real) \<noteq> 0"
proof -
  have "sin (pi / 6) \<le> pi / 6" by (rule sin_x_le_x) simp
  then have p: "3 \<le> pi" "pi < 4" using pi_less_4 by (simp_all add: sin_30)
  have "tan (pi / 4) \<le> tan 1" using p by (intro tan_mono_le) simp_all
  then show "1 \<le> tan (1::real)" by (simp add: tan_45)
  have "tan 1 \<le> tan (pi / 3)" using p by (intro tan_mono_le) simp_all
  also have "\<dots> = sqrt 3" by (rule tan_60)
  also have "\<dots> \<le> 2" by (rule real_le_lsqrt) simp_all
  finally show "tan (1::real) \<le> 2" .
  have "0 < cos (1::real)" using p by (intro cos_gt_zero_pi) simp_all
  then show "cos (1::real) \<noteq> 0" by simp
qed

lemma round_half_to_one:
  assumes "1 / 2 \<le> \<bar>x\<bar>" "\<bar>x\<bar> \<le> 1"
  shows "\<exists>y. binary64 (Fin x) = Fin y \<and> 1 / 2 \<le> \<bar>y\<bar> \<and> \<bar>y\<bar> \<le> 1 \<and> (0 < x \<longleftrightarrow> 0 < y)"
    and "\<exists>y. float32 (Fin x) = Fin y \<and> 1 / 2 \<le> \<bar>y\<bar> \<and> \<bar>y\<bar> \<le> 1 \<and> (0 < x \<longleftrightarrow> 0 < y)"
  using round_to_range[of "- 1" x 0 "- 1074" 53 1024] round_to_range[of "- 1" x 0 "- 149" 24 128]
    assms
  by simp_all

lemma focal_two:
  "\<exists>f. fdiv ieee (Fin 1) (ftan ieee (fdiv ieee (Fin 2) (Fin 2))) = Fin f \<and> 1 / 2 \<le> f \<and> f \<le> 1"
proof -
  have h: "fdiv ieee (Fin 2) (Fin 2) = Fin 1" by (simp add: ieee_ops ieee_small)
  have "\<exists>t. round_to 53 (- 1074) 1024 (tan 1) = Fin t \<and> 2 powr of_int 0 \<le> \<bar>t\<bar>
      \<and> \<bar>t\<bar> \<le> 2 powr of_int 1 \<and> (0 < tan (1::real) \<longleftrightarrow> 0 < t)"
    using tan_one_bounds by (intro round_to_range) simp_all
  then obtain t where t: "round_to 53 (- 1074) 1024 (tan 1) = Fin t" "1 \<le> t" "t \<le> 2"
    using tan_one_bounds by auto
  have tn: "ftan ieee (Fin 1) = Fin t"
    using t(1) tan_one_bounds(3) by (simp add: ieee_ops Math_tan_def tan_def)
  have "1 / 2 \<le> \<bar>1 / t\<bar>" "\<bar>1 / t\<bar> \<le> 1" using t(2,3) by (simp_all add: field_simps)
  from round_half_to_one(1)[OF this] obtain f where
    f: "binary64 (Fin (1 / t)) = Fin f" "1 / 2 \<le> \<bar>f\<bar>" "\<bar>f\<bar> \<le> 1" "0 < 1 / t \<longleftrightarrow> 0 < f"
    by blast
  have "0 < f" using f(4) t(2) by simp
  then have "1 / 2 \<le> f" "f \<le> 1" using f(2,3) by simp_all
  moreover have "fdiv ieee (Fin 1) (Fin t) = Fin f" using f(1) t(2) by (simp add: ieee_ops)
  ultimately show ?thesis unfolding h tn by blast
qed

lemma focal_entries:
  assumes "asp = 1 \<or> asp = - 1"
  shows "\<exists>a b. a \<noteq> 0 \<and> b \<noteq> 0 \<and>
     float32 (fdiv ieee (fdiv ieee (Fin 1) (ftan ieee (fdiv ieee (Fin 2) (Fin 2)))) (Fin asp)) = Fin a \<and>
     float32 (fdiv ieee (Fin 1) (ftan ieee (fdiv ieee (Fin 2) (Fin 2)))) = Fin b"
proof -
  from focal_two obtain f where
    f: "fdiv ieee (Fin 1) (ftan ieee (fdiv ieee (Fin 2) (Fin 2))) = Fin f" "1 / 2 \<le> f" "f \<le> 1"
    by blast
  have "1 / 2 \<le> \<bar>f\<bar>" "\<bar>f\<bar> \<le> 1" using f(2,3) by simp_all
  from round_half_to_one(2)[OF this] obtain b where
    b: "float32 (Fin f) = Fin b" "1 / 2 \<le> \<bar>b\<bar>" by blast
  have "1 / 2 \<le> \<bar>f / asp\<bar>" "\<bar>f / asp\<bar> \<le> 1" using f(2,3) assms by auto
  from round_half_to_one(1)[OF this] obtain g where
    g: "binary64 (Fin (f / asp)) = Fin g" "1 / 2 \<le> \<bar>g\<bar>" "\<bar>g\<bar> \<le> 1" by blast
  from round_half_to_one(2)[OF g(2,3)] obtain a where
    a: "float32 (Fin g) = Fin a" "1 / 2 \<le> \<bar>a\<bar>" by blast
  have "fdiv ieee (Fin f) (Fin asp) = Fin g" using g(1) assms by (auto simp add: ieee_ops)
  then have "float32 (fdiv ieee (Fin f) (Fin asp)) = Fin a" using a(1) by simp
  moreover have "a \<noteq> 0" "b \<noteq> 0" using a(2) b(2) by auto
  ultimately show ?thesis unfolding f(1) using b(1) by blast
qed

text \<open>A finite projection matrix with non-zero entries 0, 5 and 14 has an inverse.\<close>

lemma invertible_projection:
  assumes "a \<noteq> 0" "b \<noteq> 0" "d \<noteq> 0"
  shows "invertible4 [a, 0, 0, 0, 0, b, 0, 0, 0, 0, c, - 1, 0, 0, d, 0]"
  unfolding invertible4_def
  by (rule exI[of _ "[1 / a, 0, 0, 0, 0, 1 / b, 0, 0, 0, 0, 0, 1 / d, 0, 0, - 1, c / d]"])
     (use assms in \<open>simp add: mat_mul_def cell_def identity4_def\<close>)

lemma binary64_minus_half: "binary64 (Fin (- 1 / 2)) = Fin (- 1 / 2)"
  using round_to_exact[of "- 1 / 2" "- 1" "- 1" 53 "- 1074" 1024] by (simp add: two_powr_neg)

lemma negative_near_regular:
  "\<not> degenerate (perspective ieee (Fin 2) (Fin 1) (Fin (- 1)) (Some (Fin 1)))"
proof -
  from focal_entries[of 1] obtain a b where ab: "a \<noteq> 0" "b \<noteq> 0"
    "float32 (fdiv ieee (fdiv ieee (Fin 1) (ftan ieee (fdiv ieee (Fin 2) (Fin 2)))) (Fin 1)) = Fin a"
    "float32 (fdiv ieee (Fin 1) (ftan ieee (fdiv ieee (Fin 2) (Fin 2)))) = Fin b"
    by auto
  have ne: "Fin 1 \<noteq> PInf" by simp
  have M: "perspective ieee (Fin 2) (Fin 1) (Fin (- 1)) (Some (Fin 1)) =
      [Fin a, Fin 0, Fin 0, Fin 0, Fin 0, Fin b, Fin 0, Fin 0,
       Fin 0, Fin 0, Fin 0, Fin (- 1), Fin 0, Fin 0, Fin 1, Fin 0]"
    unfolding perspective_ieee_finite_far[OF ne] ab(3,4)
    using binary64_minus_half by (simp add: ieee_ops(3-6) nsub_def ieee_small)
  show ?thesis
    unfolding M degenerate_def using invertible_projection[of a b 1 0] ab(1,2) by simp
qed

lemma negative_aspect_regular:
  "\<not> degenerate (perspective ieee (Fin 2) (Fin (- 1)) (Fin 1) (Some (Fin 3)))"
proof -
  from focal_entries[of "- 1"] obtain a b where ab: "a \<noteq> 0" "b \<noteq> 0"
    "float32 (fdiv ieee (fdiv ieee (Fin 1) (ftan ieee (fdiv ieee (Fin 2) (Fin 2)))) (Fin (- 1))) = Fin a"
    "float32 (fdiv ieee (Fin 1) (ftan ieee (fdiv ieee (Fin 2) (Fin 2)))) = Fin b"
    by auto
  have ne: "Fin 3 \<noteq> PInf" by simp
  have M: "perspective ieee (Fin 2) (Fin (- 1)) (Fin 1) (Some (Fin 3)) =
      [Fin a, Fin 0, Fin 0, Fin 0, Fin 0, Fin b, Fin 0, Fin 0,
       Fin 0, Fin 0, Fin (- 2), Fin (- 1), Fin 0, Fin 0, Fin (- 3), Fin 0]"
    unfolding perspective_ieee_finite_far[OF ne] ab(3,4)
    using binary64_minus_half by (simp add: ieee_ops(3-6) nsub_def ieee_small)
  show ?thesis
    unfolding M degenerate_def using invertible_projection[of a b "- 3" "- 2"] ab(1,2) by simp
qed

text \<open>With the zero vector as axis every product of the rotation is NaN.\<close>

lemma rotate_zero_axis_value:
  "rotate_mat4 ieee m rad (Fin 0, Fin 0, Fin 0) =
     [NaN, NaN, NaN, NaN, NaN, NaN, NaN, NaN, NaN, NaN, NaN, NaN,
      float32 (elt m 12), float32 (elt m 13), float32 (elt m 14), float32 (elt m 15)]"
proof -
  have l: "fdiv ieee (Fin 1) (fhypot ieee (Fin 0) (Fin 0) (Fin 0)) = PInf"
    by (simp add: ieee_ops ieee_small inf_of_def)
  have y: "fmul ieee (Fin 0) PInf = NaN" by (simp add: ieee_ops)
  have n: "fmul ieee NaN b = NaN" "fmul ieee b NaN = NaN" "fadd ieee NaN b = NaN"
    "fadd ieee b NaN = NaN" "fsub ieee NaN b = NaN" for b
    by (simp_all add: ieee_ops nsub_def nmul_NaN_right nadd_NaN_right)
  show ?thesis
    unfolding rotate_mat4_def prod.case l Let_def y n ieee_ops(11)
    by simp
qed

text \<open>
  C9, as first stated, fails for a negative near plane: the matrix of
  \<open>perspective 2 1 (-1) 1\<close> is finite and has an inverse, so it is not degenerate.
\<close>

theorem degenerate_counterexample:
  "\<not> degenerate (perspective ieee (Fin 2) (Fin 1) (Fin (- 1)) (Some (Fin 1)))"
  by (rule negative_near_regular)

text \<open>
  C9, amended. For every matrix and every angle, \<open>rotate\<close> with the zero vector as axis
  returns a matrix whose first twelve elements are NaN and whose last four are the
  stored elements of the input; this matrix is degenerate. The functions of the library
  have no failing path: \<open>rotate\<close>, \<open>perspective\<close> and \<open>translate\<close> return sixteen
  numbers on every input. A zero field of view gives entries 0 and 5 that are not
  finite, a zero aspect ratio gives an entry 0 that is not finite, and a zero near plane
  gives a last column that is zero or holds NaN: in the three cases the matrix is
  degenerate. A negative near plane or a negative aspect ratio does not make the matrix
  degenerate: \<open>perspective 2 1 (-1) 1\<close> and \<open>perspective 2 (-1) 1 3\<close> are finite and
  invertible.
\<close>

theorem rotate_zero_axis:
  "rotate_mat4 ieee m rad (Fin 0, Fin 0, Fin 0) =
     [NaN, NaN, NaN, NaN, NaN, NaN, NaN, NaN, NaN, NaN, NaN, NaN,
      float32 (elt m 12), float32 (elt m 13), float32 (elt m 14), float32 (elt m 15)] \<and>
   \<not> finite_num (elt (rotate_mat4 ieee m rad (Fin 0, Fin 0, Fin 0)) 0) \<and>
   degenerate (rotate_mat4 ieee m rad (Fin 0, Fin 0, Fin 0)) \<and>
   length (rotate_mat4 ieee m rad axis) = 16 \<and>
   length (perspective ieee fovy aspect near far) = 16 \<and>
   length (translate ieee m v) = 16 \<and>
   \<not> finite_num (elt (perspective ieee (Fin 0) aspect near far) 0) \<and>
   \<not> finite_num (elt (perspective ieee (Fin 0) aspect near far) 5) \<and>
   degenerate (perspective ieee (Fin 0) aspect near far) \<and>
   \<not> finite_num (elt (perspective ieee fovy (Fin 0) near far) 0) \<and>
   degenerate (perspective ieee fovy (Fin 0) near far) \<and>
   degenerate (perspective ieee fovy aspect (Fin 0) far) \<and>
   \<not> degenerate (perspective ieee (Fin 2) (Fin 1) (Fin (- 1)) (Some (Fin 1))) \<and>
   \<not> degenerate (perspective ieee (Fin 2) (Fin (- 1)) (Fin 1) (Some (Fin 3)))"
proof -
  let ?R = "rotate_mat4 ieee m rad (Fin 0, Fin 0, Fin 0)"
  have r0: "\<not> finite_num (elt ?R 0)"
    unfolding rotate_zero_axis_value by (simp add: elt_list)
  have rd: "degenerate ?R"
    using degenerate_nonfinite[of 0 ?R] r0 rotate_length[of ieee m rad "(Fin 0, Fin 0, Fin 0)"]
    by simp
  have tl: "length (translate ieee m v) = 16"
    by (cases v) (simp add: translate_def Float32Array_def Let_def)
  have f5: "\<not> finite_num (elt (perspective ieee (Fin 0) aspect near far) 5)"
    by (simp add: perspective_zero_fov(1))
  have fd: "degenerate (perspective ieee (Fin 0) aspect near far)"
    using degenerate_nonfinite[of 5 "perspective ieee (Fin 0) aspect near far"] f5
      perspective_ieee_focal(3)[of "Fin 0" aspect near far]
    by simp
  have ad: "degenerate (perspective ieee fovy (Fin 0) near far)"
    using degenerate_nonfinite[of 0 "perspective ieee fovy (Fin 0) near far"]
      perspective_zero_aspect[of fovy near far] perspective_ieee_focal(3)[of fovy "Fin 0" near far]
    by simp
  from rotate_zero_axis_value[of m rad] r0 rd rotate_length[of ieee m rad axis]
    perspective_ieee_focal(3)[of fovy aspect near far] tl
    perspective_zero_fov(2)[of aspect near far] f5 fd
    perspective_zero_aspect[of fovy near far] ad perspective_zero_near[of fovy aspect far]
    negative_near_regular negative_aspect_regular
  show ?thesis by blast
qed

theorem rotate_zero_axis_witness:
  "degenerate (rotate_mat4 ieee (create ieee) (Fin 1) (Fin 0, Fin 0, Fin 0)) \<and>
   elt (rotate_mat4 ieee (create ieee) (Fin 1) (Fin 0, Fin 0, Fin 0)) 0 = NaN \<and>
   elt (rotate_mat4 ieee (create ieee) (Fin 1) (Fin 0, Fin 0, Fin 0)) 15 = Fin 1 \<and>
   degenerate (perspective ieee (Fin 1) (Fin 1) (Fin 0) (Some (Fin 100)))"
proof -
  note T = rotate_zero_axis[of "create ieee" "Fin 1" "(Fin 0, Fin 0, Fin 0)" "Fin 1" "Fin 1"
      "Fin 0" "Some (Fin 100)" "(Fin 0, Fin 0, Fin 0)"]
  from T have v: "rotate_mat4 ieee (create ieee) (Fin 1) (Fin 0, Fin 0, Fin 0) =
     [NaN, NaN, NaN, NaN, NaN, NaN, NaN, NaN, NaN, NaN, NaN, NaN,
      float32 (elt (create ieee) 12), float32 (elt (create ieee) 13),
      float32 (elt (create ieee) 14), float32 (elt (create ieee) 15)]"
    by blast
  from T have d: "degenerate (rotate_mat4 ieee (create ieee) (Fin 1) (Fin 0, Fin 0, Fin 0))"
    by blast
  from T have p: "degenerate (perspective ieee (Fin 1) (Fin 1) (Fin 0) (Some (Fin 100)))"
    by blast
  have "elt (rotate_mat4 ieee (create ieee) (Fin 1) (Fin 0, Fin 0, Fin 0)) 0 = NaN"
    "elt (rotate_mat4 ieee (create ieee) (Fin 1) (Fin 0, Fin 0, Fin 0)) 15 = Fin 1"
    unfolding v by (simp_all add: create_values elt_list ieee_small)
  with d p show ?thesis by blast
qed

end
